theory Spec2Isabelle
  imports Complex_Main "HOL-Library.Word"
begin

section \<open>Exhaustive nearest-neighbour search (libs/sfm/nearest\_neighbor.cc)\<close>

subsection \<open>Data model\<close>

text \<open>
  A C++ \<^verbatim>\<open>short\<close> is a 16-bit and an \<^verbatim>\<open>int\<close> a 32-bit two's complement integer;
  both are read with \<open>sint\<close>. Storing an \<^verbatim>\<open>int\<close> value into a \<^verbatim>\<open>short\<close> keeps its
  low 16 bits (\<open>to_short\<close>); widening a \<^verbatim>\<open>short\<close> to \<^verbatim>\<open>int\<close> keeps the value
  (\<open>scast\<close>).
\<close>

type_synonym short = "16 word"
type_synonym cint = "32 word"

definition to_short :: "int \<Rightarrow> short" where
  "to_short x = word_of_int x"

text \<open>
  Modelled from the spec: the header \<^verbatim>\<open>sfm/nearest_neighbor.h\<close> is not among the sources.
  The match result \<^verbatim>\<open>NearestNeighbor<T>::Result\<close> holds the two distances and the two
  indices. The distances have the element type \<^verbatim>\<open>T\<close>: the source starts them at
  \<open>-numeric_limits<T>::max()\<close>, calls them "misused to store inner products", casts them
  to \<^verbatim>\<open>int\<close> for the clamp and notes that the largest distance "does not fit in a
  short". The indices take the values of the loop counter, which runs over
  \<open>0..<num_elements\<close>, and are kept as natural numbers.
\<close>

record 'a nn_result =
  dist_1st_best :: 'a
  dist_2nd_best :: 'a
  index_1st_best :: nat
  index_2nd_best :: nat

text \<open>
  Modelled from the spec: the descriptor space is a contiguous set of \<^verbatim>\<open>num_elements\<close>
  descriptors, all of dimension \<^verbatim>\<open>dimensions\<close>; \<^verbatim>\<open>elements\<close> is the flat array the
  source walks over, holding the descriptors one after the other.
\<close>

record 'a nearest_neighbor =
  dimensions :: nat
  num_elements :: nat
  elements :: "'a list"

text \<open>The part of \<^verbatim>\<open>elements\<close> the descriptor pointer walks over in outer iteration \<open>i\<close>.\<close>

definition descriptor :: "'a nearest_neighbor \<Rightarrow> nat \<Rightarrow> 'a list" where
  "descriptor nn i = take (dimensions nn) (drop (i * dimensions nn) (elements nn))"

text \<open>Well-formed input: the array holds all descriptors and the query has their dimension.\<close>

definition well_formed :: "'a nearest_neighbor \<Rightarrow> 'a list \<Rightarrow> bool" where
  "well_formed nn query \<longleftrightarrow>
     length (elements nn) = num_elements nn * dimensions nn \<and> length query = dimensions nn"

subsection \<open>\<^verbatim>\<open>NearestNeighbor<short>::find\<close>, scalar path\<close>

text \<open>Lines 51 to 54: both maxima start at \<open>-numeric_limits<short>::max()\<close>, both indices at 0.\<close>

definition init_short :: "short nn_result" where
  "init_short = \<lparr>dist_1st_best = - 32767, dist_2nd_best = - 32767,
                  index_1st_best = 0, index_2nd_best = 0\<rparr>"

text \<open>
  Lines 106 to 108: the inner product is accumulated in an \<^verbatim>\<open>int\<close>; each factor is a
  \<^verbatim>\<open>short\<close> promoted to \<^verbatim>\<open>int\<close>. The 32-bit accumulator wraps around in the model
  (C++ leaves signed overflow undefined). The loop reads \<^verbatim>\<open>dimensions\<close> entries of the
  query and of the array; the recursion ends with the shorter list, which for well-formed
  input is the same.
\<close>

fun inner_product_short :: "short list \<Rightarrow> short list \<Rightarrow> cint \<Rightarrow> cint" where
  "inner_product_short (q # query) (d # descr_ptr) inner_product =
     inner_product_short query descr_ptr (inner_product + scast q * scast d)"
| "inner_product_short _ _ inner_product = inner_product"

text \<open>
  Lines 111 to 125: the top-2 update. The comparisons are made in \<^verbatim>\<open>int\<close>; the
  assignment of the inner product to a distance field narrows it to \<^verbatim>\<open>short\<close>.
\<close>

definition update_short :: "cint \<Rightarrow> nat \<Rightarrow> short nn_result \<Rightarrow> short nn_result" where
  "update_short inner_product i result =
     (if sint inner_product > sint (dist_2nd_best result) then
        if sint inner_product > sint (dist_1st_best result) then
          result\<lparr>index_2nd_best := index_1st_best result,
                 dist_2nd_best := dist_1st_best result,
                 index_1st_best := i,
                 dist_1st_best := to_short (sint inner_product)\<rparr>
        else
          result\<lparr>index_2nd_best := i,
                 dist_2nd_best := to_short (sint inner_product)\<rparr>
      else result)"

text \<open>Lines 103 to 126: the scan over all stored descriptors, in index order.\<close>

definition score_short :: "short nearest_neighbor \<Rightarrow> short list \<Rightarrow> nat \<Rightarrow> cint" where
  "score_short nn query i = inner_product_short query (descriptor nn i) 0"

definition scan_short :: "short nearest_neighbor \<Rightarrow> short list \<Rightarrow> short nn_result" where
  "scan_short nn query =
     foldl (\<lambda>result i. update_short (score_short nn query i) i result)
       init_short [0..<num_elements nn]"

text \<open>
  Lines 135 to 138: the raw value is clamped into \<open>[0, 16129]\<close>, stored, and then replaced
  by \<open>32258 - 2 * value\<close>. The arithmetic is done in \<^verbatim>\<open>int\<close> on operands that come
  from a \<^verbatim>\<open>short\<close>, so it cannot leave the 32-bit range; each result is stored into the
  \<^verbatim>\<open>short\<close> field again.
\<close>

definition finalize_short :: "short nn_result \<Rightarrow> short nn_result" where
  "finalize_short result =
     (let r1 = result\<lparr>dist_1st_best :=
                 to_short (min 16129 (max 0 (sint (dist_1st_best result))))\<rparr>;
          r2 = r1\<lparr>dist_2nd_best :=
                 to_short (min 16129 (max 0 (sint (dist_2nd_best r1))))\<rparr>;
          r3 = r2\<lparr>dist_1st_best := to_short (32258 - 2 * sint (dist_1st_best r2))\<rparr>
      in r3\<lparr>dist_2nd_best := to_short (32258 - 2 * sint (dist_2nd_best r3))\<rparr>)"

definition find_short :: "short nearest_neighbor \<Rightarrow> short list \<Rightarrow> short nn_result" where
  "find_short nn query = finalize_short (scan_short nn query)"

subsection \<open>\<^verbatim>\<open>NearestNeighbor<short>::find\<close>, SSE2 path\<close>











subsection \<open>\<^verbatim>\<open>NearestNeighbor<float>::find\<close>, scalar path\<close>

text \<open>
  A \<^verbatim>\<open>float\<close> is modelled by the real number it denotes; infinities and NaN are
  outside the model. Comparison, \<open>std::min\<close> and \<open>std::max\<close> are those of the reals.
  The sum and the product of two floats are rounded to a float again. How they are rounded
  is left open: the two operations are parameters of the model, so that what is proved of
  \<open>find\<close> holds for every rounding of the inner product.
  \<open>FLT_MAX\<close> is the value of \<open>numeric_limits<float>::max()\<close>, the largest finite
  binary32 number.
\<close>

record float_arith =
  fadd :: "real \<Rightarrow> real \<Rightarrow> real"
  fmul :: "real \<Rightarrow> real \<Rightarrow> real"

definition FLT_MAX :: real where
  "FLT_MAX = (2 ^ 24 - 1) * 2 ^ 104"

text \<open>
  The arithmetic of IEEE 754 binary32 in its normal range: the exact result is rounded
  to the nearest number with a significand of 24 bits, a tie to the one with the even
  significand. \<open>ulp\<close> is the distance of two neighbouring floats in the binade of \<open>x\<close>.
  Overflow and subnormal numbers are left out (the exponent is unbounded).
\<close>

definition round_half_even :: "real \<Rightarrow> int" where
  "round_half_even m =
     (let f = \<lfloor>m\<rfloor>; r = m - of_int f
      in if r < 1 / 2 then f else if 1 / 2 < r then f + 1 else if even f then f else f + 1)"

definition rnd32 :: "real \<Rightarrow> real" where
  "rnd32 x =
     (if x = 0 then 0
      else let e = \<lfloor>log 2 \<bar>x\<bar>\<rfloor>; ulp = 2 powr (of_int e - 23)
           in of_int (round_half_even (x / ulp)) * ulp)"

definition binary32 :: float_arith where
  "binary32 = \<lparr>fadd = (\<lambda>a b. rnd32 (a + b)), fmul = (\<lambda>a b. rnd32 (a * b))\<rparr>"

text \<open>Lines 147 to 150.\<close>

definition init_float :: "real nn_result" where
  "init_float = \<lparr>dist_1st_best = - FLT_MAX, dist_2nd_best = - FLT_MAX,
                  index_1st_best = 0, index_2nd_best = 0\<rparr>"

text \<open>Lines 195 to 197: every product and every sum is rounded to a \<^verbatim>\<open>float\<close>.\<close>

fun inner_product_float :: "float_arith \<Rightarrow> real list \<Rightarrow> real list \<Rightarrow> real \<Rightarrow> real" where
  "inner_product_float ops (q # query) (d # descr_ptr) inner_product =
     inner_product_float ops query descr_ptr (fadd ops inner_product (fmul ops q d))"
| "inner_product_float ops _ _ inner_product = inner_product"

text \<open>Lines 200 to 214.\<close>

definition update_float :: "real \<Rightarrow> nat \<Rightarrow> real nn_result \<Rightarrow> real nn_result" where
  "update_float inner_product i result =
     (if inner_product > dist_2nd_best result then
        if inner_product > dist_1st_best result then
          result\<lparr>index_2nd_best := index_1st_best result,
                 dist_2nd_best := dist_1st_best result,
                 index_1st_best := i,
                 dist_1st_best := inner_product\<rparr>
        else
          result\<lparr>index_2nd_best := i,
                 dist_2nd_best := inner_product\<rparr>
      else result)"

text \<open>Lines 192 to 215.\<close>

definition score_float ::
  "float_arith \<Rightarrow> real nearest_neighbor \<Rightarrow> real list \<Rightarrow> nat \<Rightarrow> real" where
  "score_float ops nn query i = inner_product_float ops query (descriptor nn i) 0"

definition scan_float ::
  "float_arith \<Rightarrow> real nearest_neighbor \<Rightarrow> real list \<Rightarrow> real nn_result" where
  "scan_float ops nn query =
     foldl (\<lambda>result i. update_float (score_float ops nn query i) i result)
       init_float [0..<num_elements nn]"

text \<open>
  Lines 221 to 224. Here the value over the reals is the value the \<^verbatim>\<open>float\<close>
  operations give: doubling a float is exact; for \<open>1/2 \<le> x \<le> 1\<close> the operands of
  \<open>2 - 2 * x\<close> lie within a factor 2 of each other, so their difference is a float and
  no rounding takes place; for \<open>x < 1/2\<close> the difference is above 1 and for \<open>1 < x\<close>
  below 0, rounded or not (and infinite or not, should the doubling overflow), and the
  clamp returns the bound.
\<close>

definition finalize_float :: "real nn_result \<Rightarrow> real nn_result" where
  "finalize_float result =
     (let r1 = result\<lparr>dist_1st_best := min 1 (max 0 (2 - 2 * dist_1st_best result))\<rparr>
      in r1\<lparr>dist_2nd_best := min 1 (max 0 (2 - 2 * dist_2nd_best r1))\<rparr>)"

definition find_float ::
  "float_arith \<Rightarrow> real nearest_neighbor \<Rightarrow> real list \<Rightarrow> real nn_result" where
  "find_float ops nn query = finalize_float (scan_float ops nn query)"

subsection \<open>\<^verbatim>\<open>NearestNeighbor<float>::find\<close>, SSE3 path\<close>

text \<open>
  An \<^verbatim>\<open>__m128\<close> register holds four \<^verbatim>\<open>float\<close> lanes. \<^verbatim>\<open>_mm_mul_ps\<close> and \<^verbatim>\<open>_mm_add_ps\<close>
  work lane by lane, \<^verbatim>\<open>_mm_hadd_ps\<close> adds neighbouring lanes of its two operands, and
  \<^verbatim>\<open>_mm_cvtss_f32\<close> reads lane 0. Every lane operation rounds as the scalar operation
  does.
\<close>

type_synonym m128 = "real list"

definition mm_setzero_ps :: m128 where
  "mm_setzero_ps = replicate 4 0"

definition mm_mul_ps :: "float_arith \<Rightarrow> m128 \<Rightarrow> m128 \<Rightarrow> m128" where
  "mm_mul_ps ops a b = map2 (fmul ops) a b"

definition mm_add_ps :: "float_arith \<Rightarrow> m128 \<Rightarrow> m128 \<Rightarrow> m128" where
  "mm_add_ps ops a b = map2 (fadd ops) a b"

definition mm_hadd_ps :: "float_arith \<Rightarrow> m128 \<Rightarrow> m128 \<Rightarrow> m128" where
  "mm_hadd_ps ops a b =
     [fadd ops (a ! 0) (a ! 1), fadd ops (a ! 2) (a ! 3),
      fadd ops (b ! 0) (b ! 1), fadd ops (b ! 2) (b ! 3)]"

definition mm_cvtss_f32 :: "m128 \<Rightarrow> real" where
  "mm_cvtss_f32 a = a ! 0"

text \<open>Lines 168 and 169.\<close>

fun sse_lanes_float ::
  "float_arith \<Rightarrow> nat \<Rightarrow> real list \<Rightarrow> real list \<Rightarrow> m128 \<Rightarrow> m128" where
  "sse_lanes_float ops 0 query_ptr descr_ptr reg_sum = reg_sum"
| "sse_lanes_float ops (Suc n) query_ptr descr_ptr reg_sum =
     sse_lanes_float ops n (drop 4 query_ptr) (drop 4 descr_ptr)
       (mm_add_ps ops reg_sum (mm_mul_ps ops (take 4 query_ptr) (take 4 descr_ptr)))"

text \<open>Lines 161 to 174.\<close>

definition score_float_sse ::
  "float_arith \<Rightarrow> real nearest_neighbor \<Rightarrow> real list \<Rightarrow> nat \<Rightarrow> real" where
  "score_float_sse ops nn query i =
     (let dim_4 = dimensions nn div 4;
          reg_sum = sse_lanes_float ops dim_4 query (drop (i * (dim_4 * 4)) (elements nn))
                      mm_setzero_ps;
          reg_sum = mm_hadd_ps ops reg_sum reg_sum;
          reg_sum = mm_hadd_ps ops reg_sum reg_sum
      in mm_cvtss_f32 reg_sum)"

text \<open>Lines 161 to 190.\<close>

definition scan_float_sse ::
  "float_arith \<Rightarrow> real nearest_neighbor \<Rightarrow> real list \<Rightarrow> real nn_result" where
  "scan_float_sse ops nn query =
     foldl (\<lambda>result i. update_float (score_float_sse ops nn query i) i result)
       init_float [0..<num_elements nn]"

definition find_float_sse ::
  "float_arith \<Rightarrow> real nearest_neighbor \<Rightarrow> real list \<Rightarrow> real nn_result" where
  "find_float_sse ops nn query = finalize_float (scan_float_sse ops nn query)"

subsection \<open>Auxiliary notions for the statements\<close>

text \<open>The scan after the first \<open>n\<close> descriptors, for any assignment of scores to indices.\<close>

definition scan_upto_short :: "(nat \<Rightarrow> cint) \<Rightarrow> nat \<Rightarrow> short nn_result" where
  "scan_upto_short f n =
     foldl (\<lambda>result i. update_short (f i) i result) init_short [0..<n]"

definition scan_upto_float :: "(nat \<Rightarrow> real) \<Rightarrow> nat \<Rightarrow> real nn_result" where
  "scan_upto_float f n =
     foldl (\<lambda>result i. update_float (f i) i result) init_float [0..<n]"

text \<open>
  An inner product that lies above the initial sentinel and can be stored in a
  \<^verbatim>\<open>short\<close> without loss.
\<close>

definition in_range_short :: "cint \<Rightarrow> bool" where
  "in_range_short ip \<longleftrightarrow> - 32767 < sint ip \<and> sint ip \<le> 32767"

definition scores_in_range_short :: "short nearest_neighbor \<Rightarrow> short list \<Rightarrow> bool" where
  "scores_in_range_short nn query \<longleftrightarrow>
     list_all (\<lambda>i. in_range_short (score_short nn query i)) [0..<num_elements nn]"

text \<open>No inner product is larger than the largest \<^verbatim>\<open>short\<close>.\<close>

definition at_most_short_max :: "cint \<Rightarrow> bool" where
  "at_most_short_max ip \<longleftrightarrow> sint ip \<le> 32767"

definition scores_at_most_short_max :: "short nearest_neighbor \<Rightarrow> short list \<Rightarrow> bool" where
  "scores_at_most_short_max nn query \<longleftrightarrow>
     list_all (\<lambda>i. at_most_short_max (score_short nn query i)) [0..<num_elements nn]"

definition scores_above_sentinel_float ::
  "float_arith \<Rightarrow> real nearest_neighbor \<Rightarrow> real list \<Rightarrow> bool" where
  "scores_above_sentinel_float ops nn query \<longleftrightarrow>
     list_all (\<lambda>i. - FLT_MAX < score_float ops nn query i) [0..<num_elements nn]"

text \<open>
  What the running result says about the first \<open>n\<close> scores \<open>g 0, \<dots>, g (n - 1)\<close>: the best
  value bounds all scores and the second-best value all scores but the one at the best
  index; every score before the best index is strictly smaller than the best value, and
  every score before the second-best index, the best index apart, is strictly smaller
  than the second-best value; an index other than 0 holds the score of its entry.
\<close>

definition top2_inv :: "(nat \<Rightarrow> 'b::linorder) \<Rightarrow> nat \<Rightarrow> 'b \<Rightarrow> 'b \<Rightarrow> nat \<Rightarrow> nat \<Rightarrow> bool" where
  "top2_inv g n d1 d2 i1 i2 \<longleftrightarrow>
     d2 \<le> d1 \<and> i1 \<le> n - 1 \<and> i2 \<le> n - 1 \<and>
     (\<forall>k<n. g k \<le> d1) \<and> (\<forall>k<n. k \<noteq> i1 \<longrightarrow> g k \<le> d2) \<and>
     (\<forall>k<i1. g k < d1) \<and> (\<forall>k<i2. k \<noteq> i1 \<longrightarrow> g k < d2) \<and>
     (0 < i1 \<longrightarrow> d1 = g i1) \<and> (0 < i2 \<longrightarrow> d2 = g i2)"

text \<open>
  What the running result says about the first \<open>n\<close> scores and the sentinel \<open>s0\<close> both
  values started from: each value is the sentinel or the score at its index, the two
  indices then being different; the best value bounds all scores and the second-best
  value all scores but the one at the best index.
\<close>

definition stored_inv ::
  "'b::linorder \<Rightarrow> (nat \<Rightarrow> 'b) \<Rightarrow> nat \<Rightarrow> 'b \<Rightarrow> 'b \<Rightarrow> nat \<Rightarrow> nat \<Rightarrow> bool" where
  "stored_inv s0 g n d1 d2 i1 i2 \<longleftrightarrow>
     s0 \<le> d2 \<and> d2 \<le> d1 \<and>
     (d1 = s0 \<or> (i1 < n \<and> d1 = g i1)) \<and>
     (d2 = s0 \<or> (i2 < n \<and> i2 \<noteq> i1 \<and> d2 = g i2)) \<and>
     (\<forall>k<n. g k \<le> d1) \<and> (\<forall>k<n. k \<noteq> i1 \<longrightarrow> g k \<le> d2)"

text \<open>
  The top-2 inner products of the specification, for scores \<open>g 0, \<dots>, g (n - 1)\<close>:
  descriptor \<open>m\<close> has the largest score; descriptors \<open>m\<close> and \<open>m'\<close> have the largest and
  the second largest score (which may be equal).
\<close>

definition largest_at :: "(nat \<Rightarrow> 'b::linorder) \<Rightarrow> nat \<Rightarrow> nat \<Rightarrow> bool" where
  "largest_at g n m \<longleftrightarrow> m < n \<and> list_all (\<lambda>k. g k \<le> g m) [0..<n]"

definition second_largest_at :: "(nat \<Rightarrow> 'b::linorder) \<Rightarrow> nat \<Rightarrow> nat \<Rightarrow> nat \<Rightarrow> bool" where
  "second_largest_at g n m m' \<longleftrightarrow>
     largest_at g n m \<and> m' < n \<and> m' \<noteq> m \<and>
     list_all (\<lambda>k. k = m \<or> g k \<le> g m') [0..<n]"

text \<open>
  The closed forms of the specification: \<open>2 * 127\<^sup>2 - 2 * v\<close> with \<open>v\<close> clamped into
  \<open>[0, 127\<^sup>2]\<close>, and \<open>2 - 2 * v\<close> clamped into \<open>[0, 1]\<close>.
\<close>

definition clamp :: "'a::linorder \<Rightarrow> 'a \<Rightarrow> 'a \<Rightarrow> 'a" where
  "clamp lo hi v = (if v < lo then lo else if hi < v then hi else v)"

definition quantized_distance :: "int \<Rightarrow> int" where
  "quantized_distance v = 2 * 127\<^sup>2 - 2 * clamp 0 (127\<^sup>2) v"

definition normalized_distance :: "real \<Rightarrow> real" where
  "normalized_distance v = clamp 0 1 (2 - 2 * v)"




subsection \<open>Concrete inputs\<close>

text \<open>
  Two descriptors of dimension 1 whose inner product with the query is \<open>-40000\<close>.
\<close>

definition far_space :: "short nearest_neighbor" where
  "far_space = \<lparr>dimensions = 1, num_elements = 2, elements = [200, 200]\<rparr>"

definition far_query :: "short list" where
  "far_query = [- 200]"

text \<open>Inner products 200 and 40000: the second does not fit in a \<^verbatim>\<open>short\<close>.\<close>

definition overflow_space :: "short nearest_neighbor" where
  "overflow_space = \<lparr>dimensions = 1, num_elements = 2, elements = [1, 200]\<rparr>"

definition overflow_query :: "short list" where
  "overflow_query = [200]"

text \<open>Three descriptors of dimension 2 with inner products 17, 39 and 39.\<close>

definition small_space :: "short nearest_neighbor" where
  "small_space = \<lparr>dimensions = 2, num_elements = 3, elements = [1, 2, 3, 4, 3, 4]\<rparr>"

definition small_query :: "short list" where
  "small_query = [5, 6]"

text \<open>Three unit vectors with inner products 0, 1 and 1.\<close>

definition small_space_float :: "real nearest_neighbor" where
  "small_space_float =
     \<lparr>dimensions = 2, num_elements = 3, elements = [0, 1, 1, 0, 1, 0]\<rparr>"

definition small_query_float :: "real list" where
  "small_query_float = [1, 0]"

definition empty_space :: "'a nearest_neighbor" where
  "empty_space = \<lparr>dimensions = 2, num_elements = 0, elements = []\<rparr>"

text \<open>Two descriptors with the same inner product 40000.\<close>

definition tie_space :: "short nearest_neighbor" where
  "tie_space = \<lparr>dimensions = 1, num_elements = 2, elements = [200, 200]\<rparr>"

definition tie_query :: "short list" where
  "tie_query = [200]"

text \<open>Running maxima in the middle of a scan, for the tie-break.\<close>

definition tie_result :: "short nn_result" where
  "tie_result = \<lparr>dist_1st_best = 39, dist_2nd_best = 17,
                  index_1st_best = 1, index_2nd_best = 0\<rparr>"

definition tie_result_float :: "real nn_result" where
  "tie_result_float = \<lparr>dist_1st_best = 1, dist_2nd_best = 0,
                        index_1st_best = 1, index_2nd_best = 0\<rparr>"





text \<open>
  Dimension 4, every component a binary32 number: the products of the first descriptor
  are \<open>1\<close>, \<open>0\<close>, \<open>1 / 2 ^ 24\<close> and \<open>1 / 2 ^ 24\<close>, the only non-zero product of the second
  is \<open>1 + 1 / 2 ^ 23\<close>.
\<close>

definition order_space_float :: "real nearest_neighbor" where
  "order_space_float = \<lparr>dimensions = 4, num_elements = 2,
     elements = [1, 0, 1 / 2 ^ 24, 1 / 2 ^ 24,  1 + 1 / 2 ^ 23, 0, 0, 0]\<rparr>"

definition order_query_float :: "real list" where
  "order_query_float = [1, 1, 1, 1]"

text \<open>
  Inner products 200, 40000, 400 and 200: the first and the last are equal and fit in a
  \<^verbatim>\<open>short\<close>, the second does not fit.
\<close>

definition mixed_space :: "short nearest_neighbor" where
  "mixed_space = \<lparr>dimensions = 1, num_elements = 4, elements = [1, 200, 2, 1]\<rparr>"

section \<open>Depth-map reconstruction driver (apps/dmrecon/dmrecon.cc)\<close>

subsection \<open>Scene, views and settings\<close>

text \<open>
  Modelled from the spec: the headers of the scene, the view, the file proxy and the MVS
  settings are not among the sources. The view catalog is an ordered sequence of optional
  view handles; a view offers the validity check of its camera, the lookup of an embedding
  (with the image size the driver reads from it) and the existence check of an embedding
  by name. Of the settings, the driver reads and writes the reference view, the pyramid
  scale and the name of the image embedding.
\<close>

record proxy =
  width :: int
  height :: int

record view =
  is_camera_valid :: bool
  get_proxy :: "string \<Rightarrow> proxy option"
  has_embedding :: "string \<Rightarrow> bool"

record scene =
  get_views :: "view option list"

record mvs_settings =
  refViewNr :: nat
  imageEmbedding :: string
  scale :: int

text \<open>
  Modelled from the spec: \<^verbatim>\<open>Scene::get_view_by_id\<close> is not among the sources; a view id
  outside the catalog has no view.
\<close>

definition get_view_by_id :: "scene \<Rightarrow> nat \<Rightarrow> view option" where
  "get_view_by_id scene view_nr =
     (if view_nr < length (get_views scene) then get_views scene ! view_nr else None)"

text \<open>
  Modelled from the spec: \<^verbatim>\<open>util::string::get\<close> is not among the sources; the target
  embedding name is \<open>"depth-L" + decimal(s)\<close>.
\<close>

fun decimal :: "nat \<Rightarrow> string" where
  "decimal n =
     (if n < 10 then [char_of (48 + n)] else decimal (n div 10) @ [char_of (48 + n mod 10)])"

definition string_get :: "int \<Rightarrow> string" where
  "string_get n = (if n < 0 then CHR ''-'' # decimal (nat (- n)) else decimal (nat n))"

text \<open>Lines 25 to 37, the fields the reconstruction uses.\<close>

record app_settings =
  master_id :: int
  view_ids :: "int list"
  max_pixels :: int
  force_recon :: bool
  mvs :: mvs_settings

subsection \<open>What the driver takes from outside\<close>

text \<open>
  A \<^verbatim>\<open>std::exception\<close> with its \<^verbatim>\<open>what()\<close> text. The multi-view stereo reconstruction
  (\<^verbatim>\<open>mvs::DMRecon\<close>, constructed and started) and \<^verbatim>\<open>View::save_mve_file\<close> are external:
  each takes the scene, may change it, and may throw. The \<^verbatim>\<open>float\<close> operations of the
  platform are external as well: the conversion of an \<^verbatim>\<open>int\<close> to \<^verbatim>\<open>float\<close>, the
  division of two floats and \<open>std::log\<close> on a float. A float is the real number it
  denotes; how the three operations round is left open.
\<close>

datatype exn = Exception (what: string)

record externals =
  DMRecon_start :: "scene \<Rightarrow> mvs_settings \<Rightarrow> exn option \<times> scene"
  save_mve_file :: "scene \<Rightarrow> nat \<Rightarrow> exn option \<times> scene"
  float_of_int :: "int \<Rightarrow> real"
  float_div :: "real \<Rightarrow> real \<Rightarrow> real"
  float_log :: "real \<Rightarrow> real"

subsection \<open>\<^verbatim>\<open>get_scale_from_max_pixels\<close>\<close>

text \<open>
  The product of two \<^verbatim>\<open>int\<close> values is a 32-bit integer; it wraps around in the model
  (C++ leaves signed overflow undefined).
\<close>

definition mul_int :: "int \<Rightarrow> int \<Rightarrow> int" where
  "mul_int a b = sint (word_of_int a * word_of_int b :: cint)"

text \<open>
  Lines 77 to 99. The pixel count is converted to \<^verbatim>\<open>float\<close> for the division by the
  budget; the ratio, the two logarithms and their quotient are floats. \<open>std::ceil\<close>
  returns the least integer not below its argument, which is a float again, and the cast
  to \<^verbatim>\<open>int\<close> keeps it (the quotient is assumed to lie in the range of \<^verbatim>\<open>int\<close>).
\<close>

definition get_scale_from_max_pixels ::
  "externals \<Rightarrow> scene \<Rightarrow> app_settings \<Rightarrow> mvs_settings \<Rightarrow> int" where
  "get_scale_from_max_pixels ext scene app_settings mvs_settings =
     (case get_view_by_id scene (refViewNr mvs_settings) of
        None \<Rightarrow> 0
      | Some view \<Rightarrow>
         (case get_proxy view (imageEmbedding mvs_settings) of
            None \<Rightarrow> 0
          | Some proxy \<Rightarrow>
             if mul_int (width proxy) (height proxy) \<le> max_pixels app_settings then 0
             else
               let ratio = float_div ext
                             (float_of_int ext (mul_int (width proxy) (height proxy)))
                             (float_of_int ext (max_pixels app_settings));
                   scale = \<lceil>float_div ext (float_log ext ratio) (float_log ext 4)\<rceil>
               in max 0 scale))"

subsection \<open>\<^verbatim>\<open>reconstruct\<close>\<close>

text \<open>
  What becomes of a job. \<open>DONE\<close> and \<open>FAILED\<close> are the two states the progress handle of
  \<^verbatim>\<open>reconstruct\<close> ends in; a job the batch loop leaves with \<^verbatim>\<open>continue\<close> is \<open>SKIPPED\<close>.
\<close>

datatype outcome = SKIPPED | DONE | FAILED

text \<open>
  Lines 41 to 54: if the reconstruction throws, \<^verbatim>\<open>setDone\<close> is not reached, the destructor
  of the handle records the failure and the exception leaves \<^verbatim>\<open>reconstruct\<close>.
\<close>

definition reconstruct :: "externals \<Rightarrow> scene \<Rightarrow> mvs_settings \<Rightarrow> (exn option \<times> outcome) \<times> scene"
  where
  "reconstruct ext scene settings =
     (case DMRecon_start ext scene settings of
        (None, scene') \<Rightarrow> ((None, DONE), scene')
      | (Some err, scene') \<Rightarrow> ((Some err, FAILED), scene'))"

subsection \<open>The two run modes of \<^verbatim>\<open>main\<close>\<close>

text \<open>
  One job of the run: the view id, its outcome, the settings \<^verbatim>\<open>reconstruct\<close> was called
  with (if it was called), what the job wrote to \<^verbatim>\<open>std::cerr\<close>, and the scene it left.
\<close>

record job_result =
  view_id :: int
  outcome :: outcome
  invoked :: "mvs_settings option"
  cerr :: "string list"
  scene_after :: scene

text \<open>Line 285: a view id is an \<^verbatim>\<open>int\<close> and is converted to a 64-bit \<^verbatim>\<open>std::size_t\<close>.\<close>

definition size_t_of_int :: "int \<Rightarrow> nat" where
  "size_t_of_int v = nat (v mod 2 ^ 64)"

text \<open>Lines 296 to 299: the settings of the job for the view with the given number.\<close>

definition job_settings :: "externals \<Rightarrow> app_settings \<Rightarrow> scene \<Rightarrow> nat \<Rightarrow> mvs_settings" where
  "job_settings ext conf scene view_nr =
     (let settings = (mvs conf)\<lparr>refViewNr := view_nr\<rparr>
      in if max_pixels conf > 0
         then settings\<lparr>scale := get_scale_from_max_pixels ext scene conf settings\<rparr>
         else settings)"

text \<open>Lines 301 and 302.\<close>

definition embedding_name :: "mvs_settings \<Rightarrow> string" where
  "embedding_name settings = ''depth-L'' @ string_get (scale settings)"

text \<open>
  Lines 285 to 314, the body of the batch loop for one view id. Every \<^verbatim>\<open>std::exception\<close>
  thrown inside the \<^verbatim>\<open>try\<close> block is caught and its text written to \<^verbatim>\<open>std::cerr\<close>.
\<close>

definition batch_job :: "externals \<Rightarrow> app_settings \<Rightarrow> scene \<Rightarrow> int \<Rightarrow> job_result" where
  "batch_job ext conf scene vid =
     (let id = size_t_of_int vid;
          skip = \<lparr>view_id = vid, outcome = SKIPPED, invoked = None, cerr = [],
                  scene_after = scene\<rparr>
      in if id \<ge> length (get_views scene) then skip
         else case get_views scene ! id of
           None \<Rightarrow> skip
         | Some view \<Rightarrow>
             if \<not> is_camera_valid view then skip
             else
               let settings = job_settings ext conf scene id
               in if \<not> force_recon conf \<and> has_embedding view (embedding_name settings)
                  then skip
                  else case reconstruct ext scene settings of
                    ((Some err, status), scene') \<Rightarrow>
                      \<lparr>view_id = vid, outcome = status, invoked = Some settings,
                       cerr = [what err], scene_after = scene'\<rparr>
                  | ((None, status), scene') \<Rightarrow>
                      (case save_mve_file ext scene' id of
                         (Some err, scene'') \<Rightarrow>
                           \<lparr>view_id = vid, outcome = status, invoked = Some settings,
                            cerr = [what err], scene_after = scene''\<rparr>
                       | (None, scene'') \<Rightarrow>
                           \<lparr>view_id = vid, outcome = status, invoked = Some settings,
                            cerr = [], scene_after = scene''\<rparr>))"

text \<open>
  Lines 282 to 315: the loop over the job list. The iterations run in parallel in the
  source; here they run one after the other in list order, each on the scene the previous
  one left.
\<close>

fun batch_loop :: "externals \<Rightarrow> app_settings \<Rightarrow> scene \<Rightarrow> int list \<Rightarrow> job_result list" where
  "batch_loop ext conf scene [] = []"
| "batch_loop ext conf scene (vid # ids) =
     (let r = batch_job ext conf scene vid
      in r # batch_loop ext conf (scene_after r) ids)"

text \<open>Lines 270 to 279: without an explicit list, every view of the scene is a job.\<close>

definition job_list :: "app_settings \<Rightarrow> scene \<Rightarrow> int list" where
  "job_list conf scene =
     (if view_ids conf = [] then map int [0..<length (get_views scene)] else view_ids conf)"

text \<open>Lines 250 to 255: the settings of the single job of the master mode.\<close>

definition master_settings :: "externals \<Rightarrow> app_settings \<Rightarrow> scene \<Rightarrow> mvs_settings" where
  "master_settings ext conf scene =
     (let settings =
            (if max_pixels conf > 0
             then (mvs conf)\<lparr>scale := get_scale_from_max_pixels ext scene conf (mvs conf)\<rparr>
             else mvs conf)
      in settings\<lparr>refViewNr := nat (master_id conf)\<rparr>)"

text \<open>
  Lines 247 to 331, after the scene has been loaded: the exit status of \<^verbatim>\<open>main\<close>, the
  jobs it ran, and whether it reached \<^verbatim>\<open>scene->save_views()\<close>.
\<close>

record run_result =
  exit_status :: int
  jobs :: "job_result list"
  views_saved :: bool

definition main_reconstruct :: "externals \<Rightarrow> app_settings \<Rightarrow> scene \<Rightarrow> run_result" where
  "main_reconstruct ext conf scene =
     (if master_id conf \<ge> 0 then
        let settings = master_settings ext conf scene
        in case reconstruct ext scene settings of
             ((Some err, status), scene') \<Rightarrow>
               \<lparr>exit_status = 1,
                jobs = [\<lparr>view_id = master_id conf, outcome = status,
                         invoked = Some settings, cerr = [what err],
                         scene_after = scene'\<rparr>],
                views_saved = False\<rparr>
           | ((None, status), scene') \<Rightarrow>
               \<lparr>exit_status = 0,
                jobs = [\<lparr>view_id = master_id conf, outcome = status,
                         invoked = Some settings, cerr = [],
                         scene_after = scene'\<rparr>],
                views_saved = True\<rparr>
      else
        \<lparr>exit_status = 0,
         jobs = batch_loop ext conf scene (job_list conf scene),
         views_saved = True\<rparr>)"

subsection \<open>Notions of the specification\<close>

text \<open>The three reasons for which the batch loop skips a view id.\<close>

definition view_out_of_range :: "scene \<Rightarrow> int \<Rightarrow> bool" where
  "view_out_of_range scene vid \<longleftrightarrow> size_t_of_int vid \<ge> length (get_views scene)"

definition lacks_valid_camera :: "scene \<Rightarrow> int \<Rightarrow> bool" where
  "lacks_valid_camera scene vid \<longleftrightarrow>
     (case get_view_by_id scene (size_t_of_int vid) of
        None \<Rightarrow> True
      | Some view \<Rightarrow> \<not> is_camera_valid view)"

definition already_reconstructed :: "externals \<Rightarrow> app_settings \<Rightarrow> scene \<Rightarrow> int \<Rightarrow> bool" where
  "already_reconstructed ext conf scene vid \<longleftrightarrow>
     (case get_view_by_id scene (size_t_of_int vid) of
        None \<Rightarrow> False
      | Some view \<Rightarrow>
          has_embedding view
            (''depth-L'' @
               string_get (scale (job_settings ext conf scene (size_t_of_int vid)))))"

text \<open>The scene on which the \<open>k\<close>-th job of the list is dispatched.\<close>

fun scene_before :: "externals \<Rightarrow> app_settings \<Rightarrow> scene \<Rightarrow> int list \<Rightarrow> nat \<Rightarrow> scene" where
  "scene_before ext conf scene (vid # ids) (Suc k) =
     scene_before ext conf (scene_after (batch_job ext conf scene vid)) ids k"
| "scene_before ext conf scene ids k = scene"

text \<open>The pixel count after \<open>s\<close> halvings of both sides, as the specification writes it.\<close>

definition shifted_pixels :: "int \<Rightarrow> nat \<Rightarrow> int" where
  "shifted_pixels pixels s = drop_bit (2 * s) pixels"

text \<open>
  The float to which line 94 applies \<open>std::ceil\<close>, for a pixel count and a budget, and
  what it approximates: the logarithm to base 4 of their quotient.
\<close>

definition log4_quotient :: "externals \<Rightarrow> int \<Rightarrow> int \<Rightarrow> real" where
  "log4_quotient ext pixels budget =
     float_div ext
       (float_log ext (float_div ext (float_of_int ext pixels) (float_of_int ext budget)))
       (float_log ext 4)"

definition log4_ratio :: "int \<Rightarrow> int \<Rightarrow> real" where
  "log4_ratio pixels budget = log 4 (real_of_int pixels / real_of_int budget)"

subsection \<open>Concrete scenes and settings\<close>

text \<open>A view with a 2000 by 2000 image, and one with a 4003 by 1 image.\<close>

definition photo :: view where
  "photo = \<lparr>is_camera_valid = True,
            get_proxy = (\<lambda>name. if name = ''undistorted''
                                  then Some \<lparr>width = 2000, height = 2000\<rparr> else None),
            has_embedding = (\<lambda>name. name = ''undistorted'')\<rparr>"

definition strip :: view where
  "strip = \<lparr>is_camera_valid = True,
            get_proxy = (\<lambda>name. if name = ''undistorted''
                                  then Some \<lparr>width = 4003, height = 1\<rparr> else None),
            has_embedding = (\<lambda>name. name = ''undistorted'')\<rparr>"

text \<open>
  Externals that never throw and leave the scene alone, with float operations that do
  not round.
\<close>

definition exact_ext :: externals where
  "exact_ext = \<lparr>
     DMRecon_start = (\<lambda>scene settings. (None, scene)),
     save_mve_file = (\<lambda>scene view_nr. (None, scene)),
     float_of_int = real_of_int,
     float_div = (/),
     float_log = ln\<rparr>"

text \<open>A pixel budget of 1000.\<close>

definition budget_conf :: app_settings where
  "budget_conf = \<lparr>master_id = - 1, view_ids = [], max_pixels = 1000, force_recon = False,
     mvs = \<lparr>refViewNr = 0, imageEmbedding = ''undistorted'', scale = 0\<rparr>\<rparr>"

definition budget_scene :: scene where
  "budget_scene = \<lparr>get_views = [Some photo, Some strip]\<rparr>"

definition strip_settings :: mvs_settings where
  "strip_settings = \<lparr>refViewNr = 1, imageEmbedding = ''undistorted'', scale = 0\<rparr>"

definition photo_settings :: mvs_settings where
  "photo_settings = \<lparr>refViewNr = 0, imageEmbedding = ''undistorted'', scale = 0\<rparr>"

text \<open>
  A view that already has the embedding \<open>depth-L0\<close>, a view without a valid camera, and a
  job list over a scene of four views that also names the missing view 7.
\<close>

definition done_view :: view where
  "done_view = photo\<lparr>has_embedding := (\<lambda>name. name = ''undistorted'' \<or> name = ''depth-L0'')\<rparr>"

definition blind_view :: view where
  "blind_view = photo\<lparr>is_camera_valid := False\<rparr>"

definition batch_scene :: scene where
  "batch_scene = \<lparr>get_views = [Some done_view, Some blind_view, Some photo, Some photo]\<rparr>"

definition batch_conf :: app_settings where
  "batch_conf = \<lparr>master_id = - 1, view_ids = [0, 1, 2, 3, 7], max_pixels = 0,
     force_recon = False, mvs = photo_settings\<rparr>"

definition failing_ext :: externals where
  "failing_ext = exact_ext\<lparr>
     DMRecon_start := (\<lambda>scene settings.
        if refViewNr settings = 2 then (Some (Exception ''no neighbours''), scene)
        else (None, scene))\<rparr>"

definition forced_conf :: app_settings where
  "forced_conf = batch_conf\<lparr>force_recon := True\<rparr>"

definition master_conf :: app_settings where
  "master_conf = batch_conf\<lparr>master_id := 2\<rparr>"

section \<open>Properties of the nearest-neighbour search\<close>

subsection \<open>Conversions between \<^verbatim>\<open>int\<close> and \<^verbatim>\<open>short\<close>\<close>

lemma sint_to_short:
  "- 32768 \<le> x \<Longrightarrow> x \<le> 32767 \<Longrightarrow> sint (to_short x) = x"
  by (simp add: to_short_def sint_sbintrunc' signed_take_bit_int_eq_self)

lemma sint_clamp_short:
  "sint (to_short (min 16129 (max 0 x))) = min 16129 (max 0 x)"
  by (rule sint_to_short) auto

lemma sint_dist_short:
  "sint (to_short (32258 - 2 * min 16129 (max 0 x))) = 32258 - 2 * min 16129 (max 0 x)"
  by (rule sint_to_short) auto

subsection \<open>Finalization\<close>

lemma finalize_short_dist_1st:
  "sint (dist_1st_best (finalize_short r)) =
     32258 - 2 * min 16129 (max 0 (sint (dist_1st_best r)))"
  by (simp add: finalize_short_def Let_def sint_clamp_short sint_dist_short)

lemma finalize_short_dist_2nd:
  "sint (dist_2nd_best (finalize_short r)) =
     32258 - 2 * min 16129 (max 0 (sint (dist_2nd_best r)))"
  by (simp add: finalize_short_def Let_def sint_clamp_short sint_dist_short)

lemma finalize_short_index:
  "index_1st_best (finalize_short r) = index_1st_best r"
  "index_2nd_best (finalize_short r) = index_2nd_best r"
  by (simp_all add: finalize_short_def Let_def)

lemma finalize_float_dist:
  "dist_1st_best (finalize_float r) = min 1 (max 0 (2 - 2 * dist_1st_best r))"
  "dist_2nd_best (finalize_float r) = min 1 (max 0 (2 - 2 * dist_2nd_best r))"
  by (simp_all add: finalize_float_def Let_def)

lemma finalize_float_index:
  "index_1st_best (finalize_float r) = index_1st_best r"
  "index_2nd_best (finalize_float r) = index_2nd_best r"
  by (simp_all add: finalize_float_def Let_def)

lemma quantized_distance_eq: "quantized_distance v = 32258 - 2 * min 16129 (max 0 v)"
  by (simp add: quantized_distance_def clamp_def min_def max_def)

lemma normalized_distance_eq: "normalized_distance v = min 1 (max 0 (2 - 2 * v))"
  by (simp add: normalized_distance_def clamp_def min_def max_def)

subsection \<open>The scan, one descriptor at a time\<close>

lemma scan_upto_short_0: "scan_upto_short f 0 = init_short"
  by (simp add: scan_upto_short_def)

lemma scan_upto_short_Suc:
  "scan_upto_short f (Suc n) = update_short (f n) n (scan_upto_short f n)"
  by (simp add: scan_upto_short_def)

lemma scan_short_upto:
  "scan_short nn query = scan_upto_short (score_short nn query) (num_elements nn)"
  by (simp add: scan_short_def scan_upto_short_def)

lemma scan_upto_float_0: "scan_upto_float f 0 = init_float"
  by (simp add: scan_upto_float_def)

lemma scan_upto_float_Suc:
  "scan_upto_float f (Suc n) = update_float (f n) n (scan_upto_float f n)"
  by (simp add: scan_upto_float_def)

lemma scan_float_upto:
  "scan_float ops nn query = scan_upto_float (score_float ops nn query) (num_elements nn)"
  by (simp add: scan_float_def scan_upto_float_def)

text \<open>No score above the sentinel: nothing is ever updated.\<close>

lemma scan_upto_short_no_update:
  "(\<And>i. i < n \<Longrightarrow> sint (f i) \<le> - 32767) \<Longrightarrow> scan_upto_short f n = init_short"
proof (induction n)
  case 0
  show ?case by (simp add: scan_upto_short_0)
next
  case (Suc n)
  then have "scan_upto_short f n = init_short" by simp
  moreover have "sint (f n) \<le> - 32767" using Suc.prems by simp
  ultimately show ?case
    by (simp add: scan_upto_short_Suc update_short_def init_short_def)
qed

lemma scan_upto_short_ordered:
  "(\<And>i. i < n \<Longrightarrow> in_range_short (f i)) \<Longrightarrow>
   sint (dist_2nd_best (scan_upto_short f n)) \<le> sint (dist_1st_best (scan_upto_short f n))"
proof (induction n)
  case 0
  show ?case by (simp add: scan_upto_short_0 init_short_def)
next
  case (Suc n)
  have r: "in_range_short (f n)" using Suc.prems by simp
  have ih: "sint (dist_2nd_best (scan_upto_short f n))
              \<le> sint (dist_1st_best (scan_upto_short f n))"
    using Suc by simp
  from r have "sint (to_short (sint (f n))) = sint (f n)"
    by (intro sint_to_short) (auto simp: in_range_short_def)
  with ih show ?case
    by (simp add: scan_upto_short_Suc update_short_def)
qed

lemma scan_upto_short_index_bound:
  "index_1st_best (scan_upto_short f n) \<le> n - 1 \<and>
   index_2nd_best (scan_upto_short f n) \<le> n - 1"
proof (induction n)
  case 0
  show ?case by (simp add: scan_upto_short_0 init_short_def)
next
  case (Suc n)
  then show ?case
    by (auto simp add: scan_upto_short_Suc update_short_def)
qed

lemma scan_upto_short_one:
  "in_range_short (f 0) \<Longrightarrow> scan_upto_short f (Suc 0) =
    \<lparr>dist_1st_best = to_short (sint (f 0)), dist_2nd_best = - 32767,
     index_1st_best = 0, index_2nd_best = 0\<rparr>"
  by (simp add: scan_upto_short_Suc scan_upto_short_0 update_short_def init_short_def
      in_range_short_def)

lemma scan_upto_short_distinct:
  "(\<And>i. i < n \<Longrightarrow> in_range_short (f i)) \<Longrightarrow> 2 \<le> n \<Longrightarrow>
   index_1st_best (scan_upto_short f n) \<noteq> index_2nd_best (scan_upto_short f n)"
proof (induction n)
  case 0
  then show ?case by simp
next
  case (Suc n)
  show ?case
  proof (cases "n = Suc 0")
    case True
    have "in_range_short (f 0)" "in_range_short (f 1)" using Suc.prems True by simp_all
    then show ?thesis
      using True
      by (simp add: scan_upto_short_Suc [of f "Suc 0"] scan_upto_short_one update_short_def
          in_range_short_def)
  next
    case False
    then have n: "2 \<le> n" using Suc.prems by simp
    then have ih: "index_1st_best (scan_upto_short f n) \<noteq> index_2nd_best (scan_upto_short f n)"
      using Suc by simp
    have "index_1st_best (scan_upto_short f n) < n" "index_2nd_best (scan_upto_short f n) < n"
      using scan_upto_short_index_bound [of f n] n by arith+
    with ih show ?thesis
      by (auto simp add: scan_upto_short_Suc update_short_def)
  qed
qed

lemma scan_upto_float_ordered:
  "dist_2nd_best (scan_upto_float f n) \<le> dist_1st_best (scan_upto_float f n)"
proof (induction n)
  case 0
  show ?case by (simp add: scan_upto_float_0 init_float_def)
next
  case (Suc n)
  then show ?case
    by (simp add: scan_upto_float_Suc update_float_def)
qed

lemma scan_upto_float_index_bound:
  "index_1st_best (scan_upto_float f n) \<le> n - 1 \<and>
   index_2nd_best (scan_upto_float f n) \<le> n - 1"
proof (induction n)
  case 0
  show ?case by (simp add: scan_upto_float_0 init_float_def)
next
  case (Suc n)
  then show ?case
    by (auto simp add: scan_upto_float_Suc update_float_def)
qed

lemma scan_upto_float_one:
  "- FLT_MAX < f 0 \<Longrightarrow> scan_upto_float f (Suc 0) =
    \<lparr>dist_1st_best = f 0, dist_2nd_best = - FLT_MAX,
     index_1st_best = 0, index_2nd_best = 0\<rparr>"
  by (simp add: scan_upto_float_Suc scan_upto_float_0 update_float_def init_float_def)

lemma scan_upto_float_distinct:
  "(\<And>i. i < n \<Longrightarrow> - FLT_MAX < f i) \<Longrightarrow> 2 \<le> n \<Longrightarrow>
   index_1st_best (scan_upto_float f n) \<noteq> index_2nd_best (scan_upto_float f n)"
proof (induction n)
  case 0
  then show ?case by simp
next
  case (Suc n)
  show ?case
  proof (cases "n = Suc 0")
    case True
    have "- FLT_MAX < f 0" "- FLT_MAX < f 1" using Suc.prems True by simp_all
    then show ?thesis
      using True
      by (simp add: scan_upto_float_Suc [of f "Suc 0"] scan_upto_float_one update_float_def)
  next
    case False
    then have n: "2 \<le> n" using Suc.prems by simp
    then have ih: "index_1st_best (scan_upto_float f n) \<noteq> index_2nd_best (scan_upto_float f n)"
      using Suc by simp
    have "index_1st_best (scan_upto_float f n) < n" "index_2nd_best (scan_upto_float f n) < n"
      using scan_upto_float_index_bound [of f n] n by arith+
    with ih show ?thesis
      by (auto simp add: scan_upto_float_Suc update_float_def)
  qed
qed

subsection \<open>The running result holds the two best scores, earliest first\<close>

lemma top2_inv_best:
  assumes "top2_inv g n d1 d2 i1 i2" "d2 < g n" "d1 < g n"
  shows "top2_inv g (Suc n) (g n) d1 n i1"
  using assms unfolding top2_inv_def
  by (auto simp: less_Suc_eq intro: le_less_trans less_imp_le)

lemma top2_inv_second:
  assumes "top2_inv g n d1 d2 i1 i2" "d2 < g n" "\<not> d1 < g n"
  shows "top2_inv g (Suc n) d1 (g n) i1 n"
  using assms unfolding top2_inv_def
  by (auto simp: less_Suc_eq intro: le_less_trans less_imp_le)

lemma top2_inv_none:
  assumes "top2_inv g n d1 d2 i1 i2" "\<not> d2 < g n"
  shows "top2_inv g (Suc n) d1 d2 i1 i2"
  using assms unfolding top2_inv_def
  by (auto simp: less_Suc_eq intro: order_trans)

lemma top2_inv_tie:
  assumes "top2_inv g n d1 d2 i1 i2" "i < j" "j < n" "g i = g j"
  shows "i1 \<noteq> j" and "i2 = j \<longrightarrow> i1 = i"
  using assms unfolding top2_inv_def
  by (auto dest: spec [of _ i])


lemma scan_upto_float_top2:
  "top2_inv f n (dist_1st_best (scan_upto_float f n)) (dist_2nd_best (scan_upto_float f n))
     (index_1st_best (scan_upto_float f n)) (index_2nd_best (scan_upto_float f n))"
proof (induction n)
  case 0
  show ?case by (simp add: scan_upto_float_0 init_float_def top2_inv_def)
next
  case (Suc n)
  let ?r = "scan_upto_float f n"
  consider (best) "dist_2nd_best ?r < f n" "dist_1st_best ?r < f n"
    | (second) "dist_2nd_best ?r < f n" "\<not> dist_1st_best ?r < f n"
    | (none) "\<not> dist_2nd_best ?r < f n"
    by blast
  then show ?case
  proof cases
    case best
    with top2_inv_best [OF Suc.IH] show ?thesis
      by (simp add: scan_upto_float_Suc update_float_def)
  next
    case second
    with top2_inv_second [OF Suc.IH] show ?thesis
      by (simp add: scan_upto_float_Suc update_float_def)
  next
    case none
    with top2_inv_none [OF Suc.IH] show ?thesis
      by (simp add: scan_upto_float_Suc update_float_def)
  qed
qed

lemma sint_short_lower: "- 32768 \<le> sint (w :: short)"
  using sint_ge [of w] by simp

lemma sint_stored:
  "at_most_short_max ip \<Longrightarrow> sint (d :: short) < sint ip \<Longrightarrow>
   sint (to_short (sint ip)) = sint ip"
  using sint_short_lower [of d] by (intro sint_to_short) (simp_all add: at_most_short_max_def)

lemma scan_upto_short_top2:
  "(\<And>k. k < n \<Longrightarrow> at_most_short_max (f k)) \<Longrightarrow>
   top2_inv (\<lambda>k. sint (f k)) n
     (sint (dist_1st_best (scan_upto_short f n))) (sint (dist_2nd_best (scan_upto_short f n)))
     (index_1st_best (scan_upto_short f n)) (index_2nd_best (scan_upto_short f n))"
proof (induction n)
  case 0
  show ?case by (simp add: scan_upto_short_0 init_short_def top2_inv_def)
next
  case (Suc n)
  let ?r = "scan_upto_short f n"
  let ?g = "\<lambda>k. sint (f k)"
  have ih: "top2_inv ?g n (sint (dist_1st_best ?r)) (sint (dist_2nd_best ?r))
      (index_1st_best ?r) (index_2nd_best ?r)"
    using Suc by simp
  have fit: "at_most_short_max (f n)" using Suc.prems by simp
  consider (best) "sint (dist_2nd_best ?r) < ?g n" "sint (dist_1st_best ?r) < ?g n"
    | (second) "sint (dist_2nd_best ?r) < ?g n" "\<not> sint (dist_1st_best ?r) < ?g n"
    | (none) "\<not> sint (dist_2nd_best ?r) < ?g n"
    by blast
  then show ?case
  proof cases
    case best
    with top2_inv_best [OF ih] sint_stored [OF fit best(1)] show ?thesis
      by (simp add: scan_upto_short_Suc update_short_def)
  next
    case second
    with top2_inv_second [OF ih] sint_stored [OF fit second(1)] show ?thesis
      by (simp add: scan_upto_short_Suc update_short_def)
  next
    case none
    with top2_inv_none [OF ih] show ?thesis
      by (simp add: scan_upto_short_Suc update_short_def)
  qed
qed

subsection \<open>The values held in the result are the sentinel or the two largest scores\<close>

lemma stored_inv_best:
  assumes "stored_inv s0 g n d1 d2 i1 i2" "d2 < g n" "d1 < g n"
  shows "stored_inv s0 g (Suc n) (g n) d1 n i1"
  using assms unfolding stored_inv_def
  by (auto simp: less_Suc_eq intro: less_imp_le order_trans)

lemma stored_inv_second:
  assumes "stored_inv s0 g n d1 d2 i1 i2" "d2 < g n" "\<not> d1 < g n"
  shows "stored_inv s0 g (Suc n) d1 (g n) i1 n"
  using assms unfolding stored_inv_def
  by (auto simp: less_Suc_eq intro: less_imp_le order_trans le_less_trans)

lemma stored_inv_none:
  assumes "stored_inv s0 g n d1 d2 i1 i2" "\<not> d2 < g n"
  shows "stored_inv s0 g (Suc n) d1 d2 i1 i2"
  using assms unfolding stored_inv_def
  by (auto simp: less_Suc_eq intro: order_trans)

lemma list_all_upt: "list_all P [0..<n] \<longleftrightarrow> (\<forall>i<n. P i)"
  by (auto simp: list_all_iff)

lemma stored_inv_largest:
  assumes "stored_inv s0 g n d1 d2 i1 i2" "largest_at g n m"
  shows "d1 = g m \<or> (d1 = s0 \<and> g m \<le> s0)"
proof -
  from assms(2) have m: "m < n" "\<And>k. k < n \<Longrightarrow> g k \<le> g m"
    by (simp_all add: largest_at_def list_all_upt)
  from assms(1) have le: "g m \<le> d1" and d1: "d1 = s0 \<or> (i1 < n \<and> d1 = g i1)"
    using m(1) by (simp_all add: stored_inv_def)
  from d1 show ?thesis
  proof
    assume "d1 = s0"
    with le show ?thesis by simp
  next
    assume "i1 < n \<and> d1 = g i1"
    with m(2) [of i1] le show ?thesis by simp
  qed
qed

lemma stored_inv_second_largest:
  assumes "stored_inv s0 g n d1 d2 i1 i2" "second_largest_at g n m m'"
  shows "d2 = g m' \<or> (d2 = s0 \<and> g m' \<le> s0)"
proof -
  from assms(2) have m: "m < n" "\<And>k. k < n \<Longrightarrow> g k \<le> g m"
    and m': "m' < n" "m' \<noteq> m" "\<And>k. k < n \<Longrightarrow> k \<noteq> m \<Longrightarrow> g k \<le> g m'"
    by (auto simp add: second_largest_at_def largest_at_def list_all_upt)
  from assms(1) have ord: "s0 \<le> d2" "d2 \<le> d1"
    and d1: "d1 = s0 \<or> (i1 < n \<and> d1 = g i1)"
    and d2: "d2 = s0 \<or> (i2 < n \<and> i2 \<noteq> i1 \<and> d2 = g i2)"
    and b1: "\<And>k. k < n \<Longrightarrow> g k \<le> d1"
    and b2: "\<And>k. k < n \<Longrightarrow> k \<noteq> i1 \<Longrightarrow> g k \<le> d2"
    by (simp_all add: stored_inv_def)
  have le: "g m' \<le> d2"
  proof (cases "m' = i1")
    case False
    then show ?thesis using b2 [OF m'(1)] by simp
  next
    case True
    then have "m \<noteq> i1" using m'(2) by simp
    then have "g m \<le> d2" using b2 [OF m(1)] by simp
    with m(2) [OF m'(1)] show ?thesis by simp
  qed
  from d2 show ?thesis
  proof
    assume "d2 = s0"
    with le show ?thesis by simp
  next
    assume h: "i2 < n \<and> i2 \<noteq> i1 \<and> d2 = g i2"
    show ?thesis
    proof (cases "i2 = m")
      case False
      with h m'(3) [of i2] le show ?thesis by simp
    next
      case True
      with h have eq: "d2 = g m" and ne: "i1 \<noteq> m" by auto
      from d1 show ?thesis
      proof
        assume "d1 = s0"
        with ord have "d2 = s0" by simp
        with le show ?thesis by simp
      next
        assume a: "i1 < n \<and> d1 = g i1"
        with ne m'(3) [of i1] have "g i1 \<le> g m'" by simp
        moreover have "g m \<le> g i1" using a b1 [OF m(1)] by simp
        ultimately have "g m \<le> g m'" by (rule order_trans [rotated])
        with le eq have "d2 = g m'" by simp
        then show ?thesis ..
      qed
    qed
  qed
qed

lemma scan_upto_float_stored:
  "stored_inv (- FLT_MAX) f n
     (dist_1st_best (scan_upto_float f n)) (dist_2nd_best (scan_upto_float f n))
     (index_1st_best (scan_upto_float f n)) (index_2nd_best (scan_upto_float f n))"
proof (induction n)
  case 0
  show ?case by (simp add: scan_upto_float_0 init_float_def stored_inv_def)
next
  case (Suc n)
  let ?r = "scan_upto_float f n"
  consider (best) "dist_2nd_best ?r < f n" "dist_1st_best ?r < f n"
    | (second) "dist_2nd_best ?r < f n" "\<not> dist_1st_best ?r < f n"
    | (none) "\<not> dist_2nd_best ?r < f n"
    by blast
  then show ?case
  proof cases
    case best
    with stored_inv_best [OF Suc.IH] show ?thesis
      by (simp add: scan_upto_float_Suc update_float_def)
  next
    case second
    with stored_inv_second [OF Suc.IH] show ?thesis
      by (simp add: scan_upto_float_Suc update_float_def)
  next
    case none
    with stored_inv_none [OF Suc.IH] show ?thesis
      by (simp add: scan_upto_float_Suc update_float_def)
  qed
qed

lemma scan_upto_short_stored:
  "(\<And>k. k < n \<Longrightarrow> at_most_short_max (f k)) \<Longrightarrow>
   stored_inv (- 32767) (\<lambda>k. sint (f k)) n
     (sint (dist_1st_best (scan_upto_short f n))) (sint (dist_2nd_best (scan_upto_short f n)))
     (index_1st_best (scan_upto_short f n)) (index_2nd_best (scan_upto_short f n))"
proof (induction n)
  case 0
  show ?case by (simp add: scan_upto_short_0 init_short_def stored_inv_def)
next
  case (Suc n)
  let ?r = "scan_upto_short f n"
  let ?g = "\<lambda>k. sint (f k)"
  have ih: "stored_inv (- 32767) ?g n (sint (dist_1st_best ?r)) (sint (dist_2nd_best ?r))
      (index_1st_best ?r) (index_2nd_best ?r)"
    using Suc by simp
  have fit: "at_most_short_max (f n)" using Suc.prems by simp
  consider (best) "sint (dist_2nd_best ?r) < ?g n" "sint (dist_1st_best ?r) < ?g n"
    | (second) "sint (dist_2nd_best ?r) < ?g n" "\<not> sint (dist_1st_best ?r) < ?g n"
    | (none) "\<not> sint (dist_2nd_best ?r) < ?g n"
    by blast
  then show ?case
  proof cases
    case best
    with stored_inv_best [OF ih] sint_stored [OF fit best(1)] show ?thesis
      by (simp add: scan_upto_short_Suc update_short_def)
  next
    case second
    with stored_inv_second [OF ih] sint_stored [OF fit second(1)] show ?thesis
      by (simp add: scan_upto_short_Suc update_short_def)
  next
    case none
    with stored_inv_none [OF ih] show ?thesis
      by (simp add: scan_upto_short_Suc update_short_def)
  qed
qed

lemma quantized_distance_sentinel:
  "v \<le> - 32767 \<Longrightarrow> quantized_distance v = quantized_distance (- 32767)"
  by (simp add: quantized_distance_def clamp_def)

lemma normalized_distance_sentinel:
  "v \<le> - FLT_MAX \<Longrightarrow> normalized_distance v = normalized_distance (- FLT_MAX)"
  by (simp add: normalized_distance_def clamp_def FLT_MAX_def)

subsection \<open>The SSE2 lanes against the exact sums\<close>

















subsection \<open>Rounding to binary32\<close>

lemma round_half_even_int: "round_half_even (of_int m) = m"
  by (simp add: round_half_even_def)

lemma rnd32_binade:
  assumes "2 powr of_int e \<le> \<bar>x\<bar>" "\<bar>x\<bar> < 2 powr (of_int e + 1)"
  shows "rnd32 x =
    of_int (round_half_even (x / 2 powr (of_int e - 23))) * 2 powr (of_int e - 23)"
proof -
  have pos: "0 < \<bar>x\<bar>" using assms(1) by (smt (verit) powr_gt_zero)
  then have nz: "x \<noteq> 0" by simp
  have "of_int e \<le> log 2 \<bar>x\<bar>" using assms(1) pos by (simp add: le_log_iff)
  moreover have "log 2 \<bar>x\<bar> < of_int e + 1" using assms(2) pos by (simp add: log_less_iff)
  ultimately have "\<lfloor>log 2 \<bar>x\<bar>\<rfloor> = e" by (simp add: floor_eq_iff)
  then show ?thesis using nz by (simp add: rnd32_def Let_def)
qed

text \<open>A number with a significand of 24 bits is a float and is not rounded.\<close>

lemma rnd32_representable:
  assumes x: "x = of_int m * 2 powr (of_int e - 23)" and m: "2 ^ 23 \<le> \<bar>m\<bar>" "\<bar>m\<bar> < 2 ^ 24"
  shows "rnd32 x = x"
proof -
  let ?u = "2 powr (of_int e - 23) :: real"
  have u: "0 < ?u" by simp
  have ax: "\<bar>x\<bar> = of_int \<bar>m\<bar> * ?u" by (simp add: x abs_mult)
  have e: "2 powr of_int e = 2 ^ 23 * ?u"
    by (simp add: powr_diff)
  have e1: "2 powr (of_int e + 1) = 2 ^ 24 * ?u"
    by (simp add: powr_diff powr_add)
  have "(2 ^ 23 :: real) \<le> of_int \<bar>m\<bar>"
    using m(1) by (metis of_int_le_iff of_int_numeral of_int_power)
  then have lo: "2 powr of_int e \<le> \<bar>x\<bar>" unfolding ax e using u by simp
  have "of_int \<bar>m\<bar> < (2 ^ 24 :: real)"
    using m(2) by (metis of_int_less_iff of_int_numeral of_int_power)
  then have hi: "\<bar>x\<bar> < 2 powr (of_int e + 1)" unfolding ax e1 using u by simp
  have "x / ?u = of_int m" using u by (simp add: x)
  then show ?thesis
    unfolding rnd32_binade [OF lo hi] by (simp add: round_half_even_int x)
qed

lemma rnd32_0: "rnd32 0 = 0"
  by (simp add: rnd32_def)

lemma rnd32_1: "rnd32 1 = 1"
  by (rule rnd32_representable [where m = "2 ^ 23" and e = 0]) (simp_all add: powr_minus)

lemma rnd32_2_pow_minus_24: "rnd32 (1 / 16777216) = 1 / 16777216"
  by (rule rnd32_representable [where m = "2 ^ 23" and e = "- 24"]) (simp_all add: powr_minus)

lemma rnd32_2_pow_minus_23: "rnd32 (1 / 8388608) = 1 / 8388608"
  by (rule rnd32_representable [where m = "2 ^ 23" and e = "- 23"]) (simp_all add: powr_minus)

lemma rnd32_succ_1: "rnd32 (8388609 / 8388608) = 8388609 / 8388608"
  by (rule rnd32_representable [where m = "2 ^ 23 + 1" and e = 0]) (simp_all add: powr_minus)

text \<open>Halfway between 1 and the next float: a tie, decided for the even significand.\<close>

lemma rnd32_tie_1: "rnd32 (16777217 / 16777216) = 1"
proof -
  have "rnd32 (16777217 / 16777216) =
     of_int (round_half_even ((16777217 / 16777216) / 2 powr (of_int 0 - 23)))
       * 2 powr (of_int 0 - 23)"
    by (rule rnd32_binade) simp_all
  also have "(16777217 / 16777216) / 2 powr (of_int 0 - 23) = (8388608 + 1 / 2 :: real)"
    by (simp add: powr_minus)
  also have "round_half_even (8388608 + 1 / 2) = 8388608"
    by (simp add: round_half_even_def Let_def)
  finally show ?thesis by (simp add: powr_minus)
qed

lemmas rnd32_values =
  rnd32_0 rnd32_1 rnd32_2_pow_minus_24 rnd32_2_pow_minus_23 rnd32_succ_1 rnd32_tie_1

lemma binary32_ops:
  "fadd binary32 a b = rnd32 (a + b)" "fmul binary32 a b = rnd32 (a * b)"
  by (simp_all add: binary32_def)

subsection \<open>The two orders of summation in binary32\<close>

lemma order_space_float_scores:
  "score_float binary32 order_space_float order_query_float 0 = 1"
  "score_float binary32 order_space_float order_query_float 1 = 8388609 / 8388608"
  "score_float_sse binary32 order_space_float order_query_float 0 = 8388609 / 8388608"
  "score_float_sse binary32 order_space_float order_query_float 1 = 8388609 / 8388608"
  by (simp_all add: score_float_def score_float_sse_def order_space_float_def
      order_query_float_def descriptor_def Let_def mm_setzero_ps_def mm_add_ps_def
      mm_mul_ps_def mm_hadd_ps_def mm_cvtss_f32_def binary32_ops rnd32_values)

subsection \<open>Order of the distances and distinct indices\<close>

text \<open>
  Against C1 as stated: \<open>far_space\<close> holds two descriptors and the query has their
  dimension, but both inner products are \<open>-40000\<close>, below the initial \<open>-32767\<close>, so no
  update happens and both indices stay 0.
\<close>

theorem find_indices_coincide:
  "well_formed far_space far_query \<and> 2 \<le> num_elements far_space \<and>
   \<not> index_1st_best (find_short far_space far_query)
       \<noteq> index_2nd_best (find_short far_space far_query)"
  by code_simp

text \<open>
  The order of the distances can fail as well: an inner product of 40000 passes both
  comparisons and is then narrowed to \<open>-25536\<close> when stored as the new best.
\<close>

lemma find_short_order_lost:
  "sint (dist_1st_best (find_short overflow_space overflow_query)) = 32258 \<and>
   sint (dist_2nd_best (find_short overflow_space overflow_query)) = 31858"
  by code_simp

text \<open>
  C1, amended. For every descriptor space with at least two elements whose inner products
  with the query all lie above the initial sentinel (and, in the quantized matcher, fit
  in a \<^verbatim>\<open>short\<close>: \<open>-32767 < ip \<le> 32767\<close>; in the float matcher: \<open>-FLT_MAX < ip\<close>),
  \<open>find\<close> returns \<open>dist_1st_best \<le> dist_2nd_best\<close> and two different indices. In the
  float matcher the inner products are the computed ones, however the arithmetic rounds.
\<close>

theorem find_ordered_distinct:
  "(2 \<le> num_elements nn \<and> scores_in_range_short nn query \<longrightarrow>
      sint (dist_1st_best (find_short nn query)) \<le> sint (dist_2nd_best (find_short nn query)) \<and>
      index_1st_best (find_short nn query) \<noteq> index_2nd_best (find_short nn query)) \<and>
   (2 \<le> num_elements nnf \<and> scores_above_sentinel_float ops nnf queryf \<longrightarrow>
      dist_1st_best (find_float ops nnf queryf) \<le> dist_2nd_best (find_float ops nnf queryf) \<and>
      index_1st_best (find_float ops nnf queryf)
        \<noteq> index_2nd_best (find_float ops nnf queryf))"
proof (intro conjI impI)
  assume h: "2 \<le> num_elements nn \<and> scores_in_range_short nn query"
  then have r: "\<And>i. i < num_elements nn \<Longrightarrow> in_range_short (score_short nn query i)"
    by (simp add: scores_in_range_short_def list_all_upt)
  have "sint (dist_2nd_best (scan_short nn query)) \<le> sint (dist_1st_best (scan_short nn query))"
    unfolding scan_short_upto by (rule scan_upto_short_ordered) (rule r)
  then show "sint (dist_1st_best (find_short nn query))
      \<le> sint (dist_2nd_best (find_short nn query))"
    by (simp add: find_short_def finalize_short_dist_1st finalize_short_dist_2nd)
  show "index_1st_best (find_short nn query) \<noteq> index_2nd_best (find_short nn query)"
    unfolding find_short_def finalize_short_index scan_short_upto
    using h by (intro scan_upto_short_distinct r) simp_all
next
  assume h: "2 \<le> num_elements nnf \<and> scores_above_sentinel_float ops nnf queryf"
  then have r: "\<And>i. i < num_elements nnf \<Longrightarrow> - FLT_MAX < score_float ops nnf queryf i"
    by (simp add: scores_above_sentinel_float_def list_all_upt)
  have "dist_2nd_best (scan_float ops nnf queryf) \<le> dist_1st_best (scan_float ops nnf queryf)"
    unfolding scan_float_upto by (rule scan_upto_float_ordered)
  then show "dist_1st_best (find_float ops nnf queryf)
      \<le> dist_2nd_best (find_float ops nnf queryf)"
    by (simp add: find_float_def finalize_float_dist min_def max_def)
  show "index_1st_best (find_float ops nnf queryf)
      \<noteq> index_2nd_best (find_float ops nnf queryf)"
    unfolding find_float_def finalize_float_index scan_float_upto
    using h by (intro scan_upto_float_distinct r) simp_all
qed

lemma small_space_float_values:
  "score_float binary32 small_space_float small_query_float 0 = 0"
  "score_float binary32 small_space_float small_query_float 1 = 1"
  "score_float binary32 small_space_float small_query_float 2 = 1"
  by (simp_all add: small_space_float_def small_query_float_def score_float_def
      descriptor_def binary32_ops rnd32_values)

lemma small_space_float_scores:
  "scores_above_sentinel_float binary32 small_space_float small_query_float"
proof -
  have n: "num_elements small_space_float = 3"
    by (simp add: small_space_float_def)
  show ?thesis
    unfolding scores_above_sentinel_float_def list_all_upt n
    using small_space_float_values
    by (auto simp add: numeral_3_eq_3 numeral_2_eq_2 less_Suc_eq FLT_MAX_def)
qed

theorem find_ordered_distinct_witness:
  "(2 \<le> num_elements small_space \<and> scores_in_range_short small_space small_query) \<and>
   (2 \<le> num_elements small_space_float \<and>
      scores_above_sentinel_float binary32 small_space_float small_query_float) \<and>
   sint (dist_1st_best (find_short small_space small_query))
     \<le> sint (dist_2nd_best (find_short small_space small_query)) \<and>
   index_1st_best (find_short small_space small_query)
     \<noteq> index_2nd_best (find_short small_space small_query) \<and>
   dist_1st_best (find_float binary32 small_space_float small_query_float)
     \<le> dist_2nd_best (find_float binary32 small_space_float small_query_float) \<and>
   index_1st_best (find_float binary32 small_space_float small_query_float)
     \<noteq> index_2nd_best (find_float binary32 small_space_float small_query_float)"
proof -
  have a: "2 \<le> num_elements small_space \<and> scores_in_range_short small_space small_query"
    by code_simp
  have b: "2 \<le> num_elements small_space_float \<and>
      scores_above_sentinel_float binary32 small_space_float small_query_float"
    using small_space_float_scores by (simp add: small_space_float_def)
  show ?thesis
    using a b
      find_ordered_distinct [of small_space small_query small_space_float binary32
        small_query_float]
    by blast
qed

subsection \<open>Finalization\<close>

lemma find_short_dist:
  "sint (dist_1st_best (find_short nn query)) =
     quantized_distance (sint (dist_1st_best (scan_short nn query)))"
  "sint (dist_2nd_best (find_short nn query)) =
     quantized_distance (sint (dist_2nd_best (scan_short nn query)))"
  by (simp_all add: find_short_def finalize_short_dist_1st finalize_short_dist_2nd
      quantized_distance_eq)

lemma find_float_dist:
  "dist_1st_best (find_float ops nn query) =
     normalized_distance (dist_1st_best (scan_float ops nn query))"
  "dist_2nd_best (find_float ops nn query) =
     normalized_distance (dist_2nd_best (scan_float ops nn query))"
  by (simp_all add: find_float_def finalize_float_dist normalized_distance_eq)

text \<open>
  Against C2 as stated: the two inner products of \<open>overflow_space\<close> are 200 and 40000.
  The closed form of the largest inner product, 40000, is the distance 0; the scan has
  stored 40000 in the \<^verbatim>\<open>short\<close> field as \<open>-25536\<close>, which is clamped to 0, and \<open>find\<close>
  returns the distance 32258.
\<close>

theorem top_inner_product_not_converted:
  "largest_at (\<lambda>k. sint (score_short overflow_space overflow_query k))
     (num_elements overflow_space) 1 \<and>
   sint (score_short overflow_space overflow_query 1) = 40000 \<and>
   quantized_distance 40000 = 0 \<and>
   sint (dist_1st_best (find_short overflow_space overflow_query)) = 32258"
  by code_simp

text \<open>
  C2, amended. After the scan, \<open>find\<close> turns the two values the scan left in the result
  into distances by the closed form of the domain and leaves the indices alone: in the
  quantized matcher the distance is \<open>2 * 127\<^sup>2 - 2 * v\<close> for the value \<open>v\<close> clamped into
  \<open>[0, 16129]\<close>, in the float matcher it is \<open>2 - 2 * v\<close> clamped into \<open>[0, 1]\<close>. None of
  the intermediate stores into the \<^verbatim>\<open>short\<close> field loses bits. In the float matcher the
  two distances are the closed forms of the largest and of the second largest inner
  product (as computed, however the arithmetic rounds). In the quantized matcher they are
  so if no inner product is larger than 32767, the largest \<^verbatim>\<open>short\<close>.
\<close>

theorem find_distances_closed_form:
  "sint (dist_1st_best (find_short nn query)) =
     quantized_distance (sint (dist_1st_best (scan_short nn query))) \<and>
   sint (dist_2nd_best (find_short nn query)) =
     quantized_distance (sint (dist_2nd_best (scan_short nn query))) \<and>
   index_1st_best (find_short nn query) = index_1st_best (scan_short nn query) \<and>
   index_2nd_best (find_short nn query) = index_2nd_best (scan_short nn query) \<and>
   dist_1st_best (find_float ops nnf queryf) =
     normalized_distance (dist_1st_best (scan_float ops nnf queryf)) \<and>
   dist_2nd_best (find_float ops nnf queryf) =
     normalized_distance (dist_2nd_best (scan_float ops nnf queryf)) \<and>
   index_1st_best (find_float ops nnf queryf) = index_1st_best (scan_float ops nnf queryf) \<and>
   index_2nd_best (find_float ops nnf queryf) = index_2nd_best (scan_float ops nnf queryf) \<and>
   (scores_at_most_short_max nn query \<and>
    largest_at (\<lambda>k. sint (score_short nn query k)) (num_elements nn) m \<longrightarrow>
      sint (dist_1st_best (find_short nn query)) =
        quantized_distance (sint (score_short nn query m))) \<and>
   (scores_at_most_short_max nn query \<and>
    second_largest_at (\<lambda>k. sint (score_short nn query k)) (num_elements nn) m m' \<longrightarrow>
      sint (dist_2nd_best (find_short nn query)) =
        quantized_distance (sint (score_short nn query m'))) \<and>
   (largest_at (score_float ops nnf queryf) (num_elements nnf) mf \<longrightarrow>
      dist_1st_best (find_float ops nnf queryf) =
        normalized_distance (score_float ops nnf queryf mf)) \<and>
   (second_largest_at (score_float ops nnf queryf) (num_elements nnf) mf mf' \<longrightarrow>
      dist_2nd_best (find_float ops nnf queryf) =
        normalized_distance (score_float ops nnf queryf mf'))"
proof (intro conjI impI)
  let ?g = "\<lambda>k. sint (score_short nn query k)"
  {
    assume h: "scores_at_most_short_max nn query \<and> largest_at ?g (num_elements nn) m"
    then have "\<And>k. k < num_elements nn \<Longrightarrow> at_most_short_max (score_short nn query k)"
      by (simp add: scores_at_most_short_max_def list_all_upt)
    note inv = scan_upto_short_stored [of "num_elements nn" "score_short nn query", OF this]
    from h have "largest_at ?g (num_elements nn) m" by simp
    from stored_inv_largest [OF inv this]
    have "quantized_distance (sint (dist_1st_best (scan_short nn query))) =
        quantized_distance (?g m)"
      using quantized_distance_sentinel [of "?g m"] by (auto simp add: scan_short_upto)
    then show "sint (dist_1st_best (find_short nn query)) = quantized_distance (?g m)"
      by (simp add: find_short_dist)
  }
  {
    assume h: "scores_at_most_short_max nn query \<and>
      second_largest_at ?g (num_elements nn) m m'"
    then have "\<And>k. k < num_elements nn \<Longrightarrow> at_most_short_max (score_short nn query k)"
      by (simp add: scores_at_most_short_max_def list_all_upt)
    note inv = scan_upto_short_stored [of "num_elements nn" "score_short nn query", OF this]
    from h have "second_largest_at ?g (num_elements nn) m m'" by simp
    from stored_inv_second_largest [OF inv this]
    have "quantized_distance (sint (dist_2nd_best (scan_short nn query))) =
        quantized_distance (?g m')"
      using quantized_distance_sentinel [of "?g m'"] by (auto simp add: scan_short_upto)
    then show "sint (dist_2nd_best (find_short nn query)) = quantized_distance (?g m')"
      by (simp add: find_short_dist)
  }
  let ?f = "score_float ops nnf queryf"
  note invf = scan_upto_float_stored [of ?f "num_elements nnf"]
  {
    assume "largest_at ?f (num_elements nnf) mf"
    from stored_inv_largest [OF invf this]
    have "normalized_distance (dist_1st_best (scan_float ops nnf queryf)) =
        normalized_distance (?f mf)"
      using normalized_distance_sentinel [of "?f mf"] by (auto simp add: scan_float_upto)
    then show "dist_1st_best (find_float ops nnf queryf) = normalized_distance (?f mf)"
      by (simp add: find_float_dist)
  }
  {
    assume "second_largest_at ?f (num_elements nnf) mf mf'"
    from stored_inv_second_largest [OF invf this]
    have "normalized_distance (dist_2nd_best (scan_float ops nnf queryf)) =
        normalized_distance (?f mf')"
      using normalized_distance_sentinel [of "?f mf'"] by (auto simp add: scan_float_upto)
    then show "dist_2nd_best (find_float ops nnf queryf) = normalized_distance (?f mf')"
      by (simp add: find_float_dist)
  }
qed (simp_all add: find_short_dist find_float_dist,
    simp_all add: find_short_def find_float_def finalize_short_index finalize_float_index)

lemma small_space_float_top2:
  "second_largest_at (score_float binary32 small_space_float small_query_float)
     (num_elements small_space_float) 1 2"
proof -
  have n: "num_elements small_space_float = 3"
    by (simp add: small_space_float_def)
  show ?thesis
    unfolding second_largest_at_def largest_at_def list_all_upt n
    using small_space_float_values
    by (auto simp add: numeral_3_eq_3 numeral_2_eq_2 less_Suc_eq)
qed

theorem find_distances_closed_form_witness:
  "(scores_at_most_short_max small_space small_query \<and>
    second_largest_at (\<lambda>k. sint (score_short small_space small_query k))
      (num_elements small_space) 1 2) \<and>
   second_largest_at (score_float binary32 small_space_float small_query_float)
     (num_elements small_space_float) 1 2 \<and>
   sint (score_short small_space small_query 1) = 39 \<and>
   sint (score_short small_space small_query 2) = 39 \<and>
   sint (dist_1st_best (find_short small_space small_query)) = quantized_distance 39 \<and>
   sint (dist_2nd_best (find_short small_space small_query)) = quantized_distance 39 \<and>
   quantized_distance 39 = 32180 \<and>
   dist_1st_best (find_float binary32 small_space_float small_query_float)
     = normalized_distance 1 \<and>
   dist_2nd_best (find_float binary32 small_space_float small_query_float)
     = normalized_distance 1 \<and>
   normalized_distance 1 = 0"
proof -
  have a: "scores_at_most_short_max small_space small_query \<and>
    second_largest_at (\<lambda>k. sint (score_short small_space small_query k))
      (num_elements small_space) 1 2"
    "sint (score_short small_space small_query 1) = 39"
    "sint (score_short small_space small_query 2) = 39"
    "quantized_distance 39 = 32180"
    by code_simp+
  have c: "normalized_distance 1 = 0"
    by (simp add: normalized_distance_def clamp_def)
  note b = small_space_float_top2
  from a(1) b have l: "largest_at (\<lambda>k. sint (score_short small_space small_query k))
      (num_elements small_space) 1"
    "largest_at (score_float binary32 small_space_float small_query_float)
     (num_elements small_space_float) 1"
    by (simp_all add: second_largest_at_def)
  show ?thesis
    using a b c l small_space_float_values
      find_distances_closed_form [of small_space small_query binary32 small_space_float
        small_query_float 1 2 1 2]
    by simp
qed

text \<open>
  Against C3 as stated: on the empty space the quantized matcher returns the distance
  32258, which is above 16129.
\<close>

theorem quantized_distance_exceeds_16129:
  "\<not> sint (dist_1st_best (find_short empty_space [])) \<le> 16129"
  by code_simp

text \<open>
  C3, amended. For every input the distances returned by the quantized matcher lie in
  \<open>[0, 32258]\<close> (it is the clamped inner product that lies in \<open>[0, 16129]\<close>), and the
  distances returned by the float matcher lie in \<open>[0, 1]\<close>, however the arithmetic
  rounds.
\<close>

theorem find_distance_bounds:
  "0 \<le> sint (dist_1st_best (find_short nn query)) \<and>
   sint (dist_1st_best (find_short nn query)) \<le> 32258 \<and>
   0 \<le> sint (dist_2nd_best (find_short nn query)) \<and>
   sint (dist_2nd_best (find_short nn query)) \<le> 32258 \<and>
   0 \<le> dist_1st_best (find_float ops nnf queryf) \<and>
   dist_1st_best (find_float ops nnf queryf) \<le> 1 \<and>
   0 \<le> dist_2nd_best (find_float ops nnf queryf) \<and>
   dist_2nd_best (find_float ops nnf queryf) \<le> 1"
  by (simp add: find_short_def find_float_def finalize_short_dist_1st finalize_short_dist_2nd
      finalize_float_dist)

subsection \<open>Scalar and vectorized path\<close>


text \<open>
  The two paths of the float matcher differ, too. In binary32 the scalar path adds the
  products of
  the first descriptor of \<open>order_space_float\<close> from left to right: \<open>1 + 1 / 2 ^ 24\<close>
  is a tie and is rounded to 1, twice, so the score is 1 and the second descriptor, with
  score \<open>1 + 1 / 2 ^ 23\<close>, is the best. The SSE3 path adds the lanes in pairs:
  \<open>1 / 2 ^ 24 + 1 / 2 ^ 24 = 1 / 2 ^ 23\<close> and \<open>1 + 1 / 2 ^ 23\<close> are floats, so both
  descriptors have the same score and the first one stays the best. All products are
  exact here, so the difference comes from the order of the additions alone.
\<close>

lemma sse3_path_differs:
  "well_formed order_space_float order_query_float \<and> 4 dvd dimensions order_space_float \<and>
   index_1st_best (find_float binary32 order_space_float order_query_float) = 1 \<and>
   index_2nd_best (find_float binary32 order_space_float order_query_float) = 0 \<and>
   index_1st_best (find_float_sse binary32 order_space_float order_query_float) = 0 \<and>
   index_2nd_best (find_float_sse binary32 order_space_float order_query_float) = 1"
proof -
  have n: "[0..<num_elements order_space_float] = [0, 1]"
    by (simp add: order_space_float_def upt_rec)
  have "well_formed order_space_float order_query_float \<and> 4 dvd dimensions order_space_float"
    by (simp add: well_formed_def order_space_float_def order_query_float_def)
  then show ?thesis
    using order_space_float_scores
    by (simp add: find_float_def find_float_sse_def finalize_float_index scan_float_def
        scan_float_sse_def n update_float_def init_float_def FLT_MAX_def)
qed



subsection \<open>Ties\<close>

text \<open>
  Against C5 as stated: the two descriptors of \<open>tie_space\<close> have the same inner product
  40000 with the query. The first is stored as best, narrowed to \<open>-25536\<close>; the second
  beats that stored value and replaces it, so the later of the two is reported as best.
\<close>

theorem later_tie_wins:
  "well_formed tie_space tie_query \<and>
   score_short tie_space tie_query 0 = score_short tie_space tie_query 1 \<and>
   index_1st_best (find_short tie_space tie_query) = 1"
  by code_simp

text \<open>
  Two equal inner products that fit in a \<^verbatim>\<open>short\<close> do not help if another one does
  not fit: of the inner products 200, 40000, 400 and 200 of \<open>mixed_space\<close> the last
  is reported as second best, the first not at all.
\<close>

lemma later_tie_kept_after_overflow:
  "score_short mixed_space overflow_query 0 = score_short mixed_space overflow_query 3 \<and>
   sint (score_short mixed_space overflow_query 0) = 200 \<and>
   sint (score_short mixed_space overflow_query 1) = 40000 \<and>
   index_1st_best (find_short mixed_space overflow_query) = 2 \<and>
   index_2nd_best (find_short mixed_space overflow_query) = 3"
  by code_simp

text \<open>
  C5, amended. The comparisons of the scan are strict: a later element whose score equals
  the best value held in the result changes neither the best index nor the best value, and
  one whose score equals the second-best value held in the result changes nothing, in both
  matchers. Hence, whenever the inner products the scan computes for two stored
  descriptors are equal (in the float matcher: the rounded sums, however the arithmetic
  rounds) and, in the quantized matcher, no inner product is larger than 32767, the
  largest \<^verbatim>\<open>short\<close>, the earlier one is retained: the later one is never reported as
  best, and it is reported as second best only if the earlier one is the best.
\<close>

theorem ties_keep_earlier:
  "(sint ip = sint (dist_1st_best r) \<longrightarrow>
      index_1st_best (update_short ip m r) = index_1st_best r \<and>
      dist_1st_best (update_short ip m r) = dist_1st_best r) \<and>
   (sint ip = sint (dist_2nd_best r) \<longrightarrow> update_short ip m r = r) \<and>
   (x = dist_1st_best rf \<longrightarrow>
      index_1st_best (update_float x m rf) = index_1st_best rf \<and>
      dist_1st_best (update_float x m rf) = dist_1st_best rf) \<and>
   (x = dist_2nd_best rf \<longrightarrow> update_float x m rf = rf) \<and>
   (scores_at_most_short_max nn query \<and> i < j \<and> j < num_elements nn \<and>
    score_short nn query i = score_short nn query j \<longrightarrow>
      index_1st_best (find_short nn query) \<noteq> j \<and>
      (index_2nd_best (find_short nn query) = j \<longrightarrow>
         index_1st_best (find_short nn query) = i)) \<and>
   (i < j \<and> j < num_elements nnf \<and>
    score_float ops nnf queryf i = score_float ops nnf queryf j \<longrightarrow>
      index_1st_best (find_float ops nnf queryf) \<noteq> j \<and>
      (index_2nd_best (find_float ops nnf queryf) = j \<longrightarrow>
         index_1st_best (find_float ops nnf queryf) = i))"
proof (intro conjI impI)
  assume h: "scores_at_most_short_max nn query \<and> i < j \<and> j < num_elements nn \<and>
    score_short nn query i = score_short nn query j"
  then have "\<And>k. k < num_elements nn \<Longrightarrow> at_most_short_max (score_short nn query k)"
    by (simp add: scores_at_most_short_max_def list_all_upt)
  note inv = scan_upto_short_top2 [of "num_elements nn" "score_short nn query", OF this]
  from h have t: "i < j" "j < num_elements nn"
    "sint (score_short nn query i) = sint (score_short nn query j)"
    by simp_all
  show "index_1st_best (find_short nn query) \<noteq> j"
    unfolding find_short_def finalize_short_index scan_short_upto
    by (rule top2_inv_tie(1) [OF inv t])
  assume "index_2nd_best (find_short nn query) = j"
  then show "index_1st_best (find_short nn query) = i"
    unfolding find_short_def finalize_short_index scan_short_upto
    using top2_inv_tie(2) [OF inv t] by simp
next
  assume h: "i < j \<and> j < num_elements nnf \<and>
    score_float ops nnf queryf i = score_float ops nnf queryf j"
  note inv = scan_upto_float_top2 [of "score_float ops nnf queryf" "num_elements nnf"]
  from h have t: "i < j" "j < num_elements nnf"
    "score_float ops nnf queryf i = score_float ops nnf queryf j"
    by simp_all
  show "index_1st_best (find_float ops nnf queryf) \<noteq> j"
    unfolding find_float_def finalize_float_index scan_float_upto
    by (rule top2_inv_tie(1) [OF inv t])
  assume "index_2nd_best (find_float ops nnf queryf) = j"
  then show "index_1st_best (find_float ops nnf queryf) = i"
    unfolding find_float_def finalize_float_index scan_float_upto
    using top2_inv_tie(2) [OF inv t] by simp
qed (simp_all add: update_short_def update_float_def)

lemma small_space_float_result:
  "index_1st_best (find_float binary32 small_space_float small_query_float) = 1"
  "index_2nd_best (find_float binary32 small_space_float small_query_float) = 2"
proof -
  have n: "[0..<num_elements small_space_float] = [0, 1, 2]"
    by (simp add: small_space_float_def upt_rec)
  show "index_1st_best (find_float binary32 small_space_float small_query_float) = 1"
    "index_2nd_best (find_float binary32 small_space_float small_query_float) = 2"
    using small_space_float_values
    by (simp_all add: find_float_def finalize_float_index scan_float_def n update_float_def
        init_float_def FLT_MAX_def)
qed

theorem ties_keep_earlier_witness:
  "sint (39 :: cint) = sint (dist_1st_best tie_result) \<and>
   index_1st_best (update_short 39 2 tie_result) = 1 \<and>
   sint (17 :: cint) = sint (dist_2nd_best tie_result) \<and>
   update_short 17 2 tie_result = tie_result \<and>
   1 = dist_1st_best tie_result_float \<and>
   index_1st_best (update_float 1 2 tie_result_float) = 1 \<and>
   0 = dist_2nd_best tie_result_float \<and>
   update_float 0 2 tie_result_float = tie_result_float \<and>
   (scores_at_most_short_max small_space small_query \<and> (1 :: nat) < 2 \<and>
    2 < num_elements small_space \<and>
    score_short small_space small_query 1 = score_short small_space small_query 2) \<and>
   index_1st_best (find_short small_space small_query) \<noteq> 2 \<and>
   index_2nd_best (find_short small_space small_query) = 2 \<and>
   index_1st_best (find_short small_space small_query) = 1 \<and>
   ((1 :: nat) < 2 \<and> 2 < num_elements small_space_float \<and>
    score_float binary32 small_space_float small_query_float 1 =
      score_float binary32 small_space_float small_query_float 2) \<and>
   index_1st_best (find_float binary32 small_space_float small_query_float) \<noteq> 2 \<and>
   index_2nd_best (find_float binary32 small_space_float small_query_float) = 2 \<and>
   index_1st_best (find_float binary32 small_space_float small_query_float) = 1"
proof -
  have a: "sint (39 :: cint) = sint (dist_1st_best tie_result)"
    "sint (17 :: cint) = sint (dist_2nd_best tie_result)"
    "1 = dist_1st_best tie_result_float" "0 = dist_2nd_best tie_result_float"
    "index_1st_best tie_result = 1" "index_1st_best tie_result_float = 1"
    by (simp_all add: tie_result_def tie_result_float_def)
  have b: "scores_at_most_short_max small_space small_query \<and> (1 :: nat) < 2 \<and>
      2 < num_elements small_space \<and>
      score_short small_space small_query 1 = score_short small_space small_query 2"
    "index_2nd_best (find_short small_space small_query) = 2"
    by code_simp+
  have c: "(1 :: nat) < 2 \<and> 2 < num_elements small_space_float \<and>
    score_float binary32 small_space_float small_query_float 1 =
      score_float binary32 small_space_float small_query_float 2"
    using small_space_float_values by (simp add: small_space_float_def)
  note t = ties_keep_earlier [where r = tie_result and m = 2 and rf = tie_result_float
      and nn = small_space and query = small_query and i = 1 and j = 2
      and ops = binary32 and nnf = small_space_float and queryf = small_query_float]
  show ?thesis
    using a b c small_space_float_result(2)
      t [where ip = 39 and x = 1] t [where ip = 17 and x = 0]
    by simp
qed

subsection \<open>Empty space and unbeaten sentinel\<close>

text \<open>
  C6. If the space is empty, \<open>find\<close> returns the "no match" result: after finalization
  both distances are the largest distance of the domain, 32258 in the quantized matcher
  and 1 in the float matcher; no result of either matcher holds a larger distance.
\<close>

theorem find_empty_space:
  "(num_elements nn = 0 \<longrightarrow>
      sint (dist_1st_best (find_short nn query)) = 32258 \<and>
      sint (dist_2nd_best (find_short nn query)) = 32258) \<and>
   (num_elements nnf = 0 \<longrightarrow>
      dist_1st_best (find_float ops nnf queryf) = 1 \<and>
      dist_2nd_best (find_float ops nnf queryf) = 1) \<and>
   sint (dist_1st_best (find_short nn' query')) \<le> 32258 \<and>
   sint (dist_2nd_best (find_short nn' query')) \<le> 32258 \<and>
   dist_1st_best (find_float ops' nnf' queryf') \<le> 1 \<and>
   dist_2nd_best (find_float ops' nnf' queryf') \<le> 1"
  by (simp add: find_short_def find_float_def finalize_short_dist_1st finalize_short_dist_2nd
      finalize_float_dist scan_short_def scan_float_def init_short_def init_float_def
      FLT_MAX_def)

theorem find_empty_space_witness:
  "num_elements (empty_space :: short nearest_neighbor) = 0 \<and>
   num_elements (empty_space :: real nearest_neighbor) = 0 \<and>
   sint (dist_1st_best (find_short empty_space [1, 2])) = 32258 \<and>
   sint (dist_2nd_best (find_short empty_space [1, 2])) = 32258 \<and>
   dist_1st_best (find_float binary32 empty_space [1, 0]) = 1 \<and>
   dist_2nd_best (find_float binary32 empty_space [1, 0]) = 1"
  using find_empty_space [of empty_space "[1, 2]" empty_space binary32 "[1, 0]"
      empty_space "[]" binary32 empty_space "[]"]
  by (simp add: empty_space_def)

text \<open>
  C10. In the quantized matcher both running maxima start at \<open>-32767\<close> and both indices
  at 0. The inner product is an \<^verbatim>\<open>int\<close> and can be \<open>-32767\<close> or less; if that is so for
  every stored descriptor, no update ever happens and the result reports index 0 twice
  (at distance 32258), also when the space has two or more elements. An empty space
  returns both indices 0 in the same way.
\<close>

theorem find_short_sentinel_never_beaten:
  "dist_1st_best init_short = - 32767 \<and> dist_2nd_best init_short = - 32767 \<and>
   index_1st_best init_short = 0 \<and> index_2nd_best init_short = 0 \<and>
   (list_all (\<lambda>i. sint (score_short nn query i) \<le> - 32767) [0..<num_elements nn] \<longrightarrow>
      scan_short nn query = init_short \<and>
      index_1st_best (find_short nn query) = 0 \<and>
      index_2nd_best (find_short nn query) = 0 \<and>
      sint (dist_1st_best (find_short nn query)) = 32258 \<and>
      sint (dist_2nd_best (find_short nn query)) = 32258)"
proof (intro conjI impI)
  assume "list_all (\<lambda>i. sint (score_short nn query i) \<le> - 32767) [0..<num_elements nn]"
  then have "\<And>i. i < num_elements nn \<Longrightarrow> sint (score_short nn query i) \<le> - 32767"
    by (simp add: list_all_upt)
  then show s: "scan_short nn query = init_short"
    unfolding scan_short_upto by (rule scan_upto_short_no_update)
  show "index_1st_best (find_short nn query) = 0" "index_2nd_best (find_short nn query) = 0"
    by (simp_all add: find_short_def finalize_short_index s init_short_def)
  show "sint (dist_1st_best (find_short nn query)) = 32258"
    "sint (dist_2nd_best (find_short nn query)) = 32258"
    by (simp_all add: find_short_def finalize_short_dist_1st finalize_short_dist_2nd s
        init_short_def)
qed (simp_all add: init_short_def)

theorem find_short_sentinel_never_beaten_witness:
  "2 \<le> num_elements far_space \<and>
   list_all (\<lambda>i. sint (score_short far_space far_query i) \<le> - 32767)
     [0..<num_elements far_space] \<and>
   sint (score_short far_space far_query 0) = - 40000 \<and>
   index_1st_best (find_short far_space far_query) = 0 \<and>
   index_2nd_best (find_short far_space far_query) = 0 \<and>
   list_all (\<lambda>i. sint (score_short empty_space far_query i) \<le> - 32767)
     [0..<num_elements (empty_space :: short nearest_neighbor)] \<and>
   index_1st_best (find_short empty_space far_query) = 0 \<and>
   index_2nd_best (find_short empty_space far_query) = 0"
proof -
  have a: "2 \<le> num_elements far_space \<and>
    list_all (\<lambda>i. sint (score_short far_space far_query i) \<le> - 32767)
     [0..<num_elements far_space] \<and> sint (score_short far_space far_query 0) = - 40000"
    by code_simp
  have b: "list_all (\<lambda>i. sint (score_short empty_space far_query i) \<le> - 32767)
     [0..<num_elements (empty_space :: short nearest_neighbor)]"
    by code_simp
  show ?thesis
    using a b find_short_sentinel_never_beaten [of far_space far_query]
      find_short_sentinel_never_beaten [of empty_space far_query]
    by blast
qed

section \<open>Properties of the reconstruction driver\<close>

subsection \<open>The scale derived from the pixel budget\<close>

lemma mul_int_exact:
  assumes "- (2 ^ 31) \<le> a * b" "a * b < 2 ^ 31"
  shows "mul_int a b = a * b"
proof -
  have "word_of_int a * word_of_int b = (word_of_int (a * b) :: cint)"
    by simp
  then show ?thesis
    unfolding mul_int_def using assms
    by (simp only: sint_sbintrunc') (simp add: signed_take_bit_int_eq_self)
qed

lemma scale_le_iff:
  assumes "0 < m" "m < p"
  shows "\<lceil>log 4 (real_of_int p / real_of_int m)\<rceil> \<le> int s \<longleftrightarrow> p \<le> m * 4 ^ s"
proof -
  let ?r = "real_of_int p / real_of_int m"
  have r: "0 < ?r" using assms by simp
  have "\<lceil>log 4 ?r\<rceil> \<le> int s \<longleftrightarrow> log 4 ?r \<le> real s"
    by (simp add: ceiling_le_iff)
  also have "\<dots> \<longleftrightarrow> ?r \<le> 4 powr real s"
    using r by (simp add: log_le_iff)
  also have "\<dots> \<longleftrightarrow> ?r \<le> 4 ^ s"
    by (simp add: powr_realpow)
  also have "\<dots> \<longleftrightarrow> real_of_int p \<le> real_of_int m * 4 ^ s"
    using assms by (simp add: pos_divide_le_eq mult.commute)
  also have "\<dots> \<longleftrightarrow> real_of_int p \<le> real_of_int (m * 4 ^ s)"
    by simp
  also have "\<dots> \<longleftrightarrow> p \<le> m * 4 ^ s"
    by (rule of_int_le_iff)
  finally show ?thesis .
qed

lemma get_scale_found:
  assumes "get_view_by_id scene (refViewNr st) = Some v"
    and "get_proxy v (imageEmbedding st) = Some px"
  shows "get_scale_from_max_pixels ext scene conf st =
    (if mul_int (width px) (height px) \<le> max_pixels conf then 0
     else max 0 \<lceil>log4_quotient ext (mul_int (width px) (height px)) (max_pixels conf)\<rceil>)"
  using assms by (simp add: get_scale_from_max_pixels_def log4_quotient_def Let_def)

lemma shifted_pixels_eq: "shifted_pixels p s = p div 4 ^ s"
  by (simp add: shifted_pixels_def drop_bit_eq_div power_mult)

text \<open>
  A quotient within \<open>tol\<close> of the exact logarithm has the same ceiling, if the logarithm
  keeps the distance \<open>tol\<close> from the integers below and above it.
\<close>

lemma ceiling_window:
  fixes q l tol :: real
  assumes "\<bar>q - l\<bar> \<le> tol" "real k + tol < l" "l \<le> real k + 1 - tol"
  shows "\<lceil>q\<rceil> = int k + 1" and "\<lceil>l\<rceil> = int k + 1"
  using assms by (simp_all add: ceiling_eq_iff) linarith+

lemma scale_window:
  fixes p m g :: int
  assumes g: "g = (if p \<le> m then 0 else max 0 \<lceil>q\<rceil>)"
    and m: "0 < m" and big: "m < p"
    and close: "\<bar>q - log 4 (real_of_int p / real_of_int m)\<bar> \<le> tol"
    and lo: "real k + tol < log 4 (real_of_int p / real_of_int m)"
    and hi: "log 4 (real_of_int p / real_of_int m) \<le> real k + 1 - tol"
  shows "g = int k + 1"
    and "g = \<lceil>log 4 (real_of_int p / real_of_int m)\<rceil>"
    and "\<forall>s. g \<le> int s \<longleftrightarrow> p \<le> m * 4 ^ s"
    and "shifted_pixels p (nat g) \<le> m"
proof -
  note w = ceiling_window [OF close lo hi]
  show v: "g = int k + 1" using big w(1) by (simp add: g)
  show c: "g = \<lceil>log 4 (real_of_int p / real_of_int m)\<rceil>" using v w(2) by simp
  show least: "\<forall>s. g \<le> int s \<longleftrightarrow> p \<le> m * 4 ^ s"
    unfolding c using scale_le_iff [OF m big] by blast
  from least have "g \<le> int (nat g) \<longleftrightarrow> p \<le> m * 4 ^ nat g" by blast
  then have "p \<le> m * 4 ^ nat g" using v by simp
  then have "p div 4 ^ nat g \<le> m * 4 ^ nat g div 4 ^ nat g"
    by (rule zdiv_mono1) simp
  then show "shifted_pixels p (nat g) \<le> m" by (simp add: shifted_pixels_eq)
qed

text \<open>The logarithm of 4000 to base 4 lies well between 5 and 6.\<close>

lemma power_51_50: "(4 :: real) \<le> (51 / 50) ^ 100"
proof -
  have "(4 :: real) * 50 ^ 100 \<le> 51 ^ 100" by simp
  moreover have "(0 :: real) < 50 ^ 100" by (rule zero_less_power) simp
  ultimately have "(4 :: real) \<le> 51 ^ 100 / 50 ^ 100"
    by (simp only: pos_le_divide_eq)
  then show ?thesis by (simp only: power_divide)
qed

lemma root_4_bound: "(4 :: real) powr (1 / 100) \<le> 51 / 50"
proof -
  have "((51 / 50 :: real) ^ 100) = (51 / 50) powr 100"
    by (rule powr_numeral [symmetric]) simp
  also have "\<dots> powr (1 / 100) = (51 / 50) powr (100 * (1 / 100))"
    by (rule powr_powr)
  also have "\<dots> = 51 / 50" by simp
  finally have root: "((51 / 50 :: real) ^ 100) powr (1 / 100) = 51 / 50" .
  have "(4 :: real) powr (1 / 100) \<le> ((51 / 50) ^ 100) powr (1 / 100)"
    by (rule powr_mono2 [OF _ _ power_51_50]) simp_all
  then show ?thesis by (simp only: root)
qed

lemma log4_4000_window:
  "5 + 1 / 100 < log 4 (4000 :: real)" "log 4 (4000 :: real) \<le> 6 - 1 / 100"
proof -
  have "(4 :: real) powr (5 + 1 / 100) = 4 powr 5 * 4 powr (1 / 100)"
    by (rule powr_add)
  also have "\<dots> = 4 ^ 5 * 4 powr (1 / 100)"
    by (simp add: powr_numeral)
  also have "\<dots> \<le> 4 ^ 5 * (51 / 50)"
    using root_4_bound by (intro mult_left_mono) simp_all
  also have "\<dots> < 4000" by simp
  finally have "(4 :: real) powr (5 + 1 / 100) < 4000" .
  then show "5 + 1 / 100 < log 4 (4000 :: real)"
    by (subst less_log_iff) simp_all
  have "(4000 :: real) * 4 powr (1 / 100) \<le> 4000 * (51 / 50)"
    using root_4_bound by (intro mult_left_mono) simp_all
  also have "\<dots> \<le> 4 ^ 6" by simp
  finally have "(4000 :: real) \<le> 4 ^ 6 / 4 powr (1 / 100)"
    by (simp add: pos_le_divide_eq)
  also have "(4 :: real) ^ 6 = 4 powr 6" by (simp add: powr_numeral)
  also have "4 powr 6 / 4 powr (1 / 100) = (4 :: real) powr (6 - 1 / 100)"
    by (rule powr_diff [symmetric])
  finally have "(4000 :: real) \<le> 4 powr (6 - 1 / 100)" .
  then show "log 4 (4000 :: real) \<le> 6 - 1 / 100"
    by (subst log_le_iff) simp_all
qed

text \<open>The logarithm of 4.003 to base 4 lies above 1 by more than 1/10000.\<close>

lemma root_4_Bernoulli:
  assumes "0 < n"
  shows "(4 :: real) powr (1 / real n) \<le> 1 + 3 / real n"
proof -
  let ?x = "1 + 3 / real n"
  have x: "0 < ?x" using assms by (simp add: add_pos_nonneg)
  have "1 + real n * (3 / real n) \<le> ?x ^ n"
  proof (rule Bernoulli_inequality)
    have "(0 :: real) \<le> 3 / real n" by simp
    then show "- 1 \<le> 3 / real n" by linarith
  qed
  then have "4 \<le> ?x ^ n" using assms by simp
  then have "(4 :: real) powr (1 / real n) \<le> (?x ^ n) powr (1 / real n)"
    by (intro powr_mono2) simp_all
  also have "?x ^ n = ?x powr real n"
    using x by (simp only: powr_realpow)
  also have "\<dots> powr (1 / real n) = ?x powr (real n * (1 / real n))"
    by (rule powr_powr)
  also have "\<dots> = ?x" using assms x by simp
  finally show ?thesis .
qed

lemma log4_4003_window:
  "1 + 1 / 10000 < log 4 (4003 / 1000 :: real)"
  "log 4 (4003 / 1000 :: real) \<le> 2 - 1 / 10000"
proof -
  have root: "(4 :: real) powr (1 / 10000) \<le> 1 + 3 / 10000"
    using root_4_Bernoulli [of 10000] by simp
  have "(4 :: real) powr (1 + 1 / 10000) = 4 powr 1 * 4 powr (1 / 10000)"
    by (rule powr_add)
  also have "\<dots> = 4 * 4 powr (1 / 10000)"
    by simp
  also have "\<dots> \<le> 4 * (1 + 3 / 10000)"
    using root by (intro mult_left_mono) simp_all
  also have "\<dots> < 4003 / 1000" by simp
  finally have "(4 :: real) powr (1 + 1 / 10000) < 4003 / 1000" .
  then show "1 + 1 / 10000 < log 4 (4003 / 1000 :: real)"
    by (subst less_log_iff) simp_all
  have "(4003 / 1000 :: real) * 4 powr (1 / 10000) \<le> 4003 / 1000 * (1 + 3 / 10000)"
    using root by (intro mult_left_mono) simp_all
  also have "\<dots> \<le> 4 ^ 2" by simp
  finally have "(4003 / 1000 :: real) \<le> 4 ^ 2 / 4 powr (1 / 10000)"
    by (simp add: pos_le_divide_eq)
  also have "(4 :: real) ^ 2 = 4 powr 2" by (simp add: powr_numeral)
  also have "4 powr 2 / 4 powr (1 / 10000) = (4 :: real) powr (2 - 1 / 10000)"
    by (rule powr_diff [symmetric])
  finally have "(4003 / 1000 :: real) \<le> 4 powr (2 - 1 / 10000)" .
  then show "log 4 (4003 / 1000 :: real) \<le> 2 - 1 / 10000"
    by (subst log_le_iff) simp_all
qed

lemma budget_lookup:
  "get_view_by_id budget_scene (refViewNr photo_settings) = Some photo"
  "get_view_by_id budget_scene (refViewNr strip_settings) = Some strip"
  "get_proxy photo (imageEmbedding photo_settings) = Some \<lparr>width = 2000, height = 2000\<rparr>"
  "get_proxy strip (imageEmbedding strip_settings) = Some \<lparr>width = 4003, height = 1\<rparr>"
  "0 < max_pixels budget_conf" "max_pixels budget_conf = 1000"
  by (simp_all add: get_view_by_id_def budget_scene_def photo_def strip_def
      photo_settings_def strip_settings_def budget_conf_def)

lemma budget_pixels: "mul_int 2000 2000 = 4000000" "mul_int 4003 1 = 4003"
  by (simp_all add: mul_int_exact)

lemma log4_quotient_exact:
  "log4_quotient exact_ext p m = log 4 (real_of_int p / real_of_int m)"
  by (simp add: log4_quotient_def exact_ext_def log_def)

lemma exact_scale_least:
  assumes "get_view_by_id scene (refViewNr st) = Some v"
    and "get_proxy v (imageEmbedding st) = Some px"
    and "mul_int (width px) (height px) = p"
    and "0 < max_pixels conf" and "max_pixels conf < p"
  shows "\<forall>s. get_scale_from_max_pixels exact_ext scene conf st \<le> int s \<longleftrightarrow>
           p \<le> max_pixels conf * 4 ^ s"
proof -
  have pos: "0 < \<lceil>log 4 (real_of_int p / real_of_int (max_pixels conf))\<rceil>"
    using scale_le_iff [OF assms(4,5), of 0] assms(5) by simp
  have "get_scale_from_max_pixels exact_ext scene conf st =
      \<lceil>log 4 (real_of_int p / real_of_int (max_pixels conf))\<rceil>"
    using assms(5) pos
    by (simp add: get_scale_found [OF assms(1,2)] assms(3) log4_quotient_exact)
  then show ?thesis
    using scale_le_iff [OF assms(4,5)] by simp
qed

lemma scale_eqI:
  fixes g :: int
  assumes "\<forall>s. g \<le> int s \<longleftrightarrow> p \<le> m * 4 ^ s" "p \<le> m * 4 ^ Suc k" "\<not> p \<le> m * 4 ^ k"
  shows "g = int (Suc k)"
proof -
  have "g \<le> int (Suc k)" "\<not> g \<le> int k" using assms by blast+
  then show ?thesis by simp
qed

text \<open>
  For a 4003 by 1 image and a budget of 1000 pixels the derived scale is 2 in every
  float arithmetic that gives the quotient of the logarithms up to an error of 1/10000.
\<close>

lemma strip_scale_any_arithmetic:
  assumes "\<bar>log4_quotient ext 4003 1000 - log4_ratio 4003 1000\<bar> \<le> 1 / 10000"
  shows "get_scale_from_max_pixels ext budget_scene budget_conf strip_settings = 2"
proof -
  have r: "log 4 (real_of_int 4003 / real_of_int 1000) = log 4 (4003 / 1000 :: real)"
    by simp
  note g = get_scale_found [OF budget_lookup(2) budget_lookup(4), of ext budget_conf,
      unfolded budget_lookup(6)]
  have g': "get_scale_from_max_pixels ext budget_scene budget_conf strip_settings =
    (if (4003 :: int) \<le> 1000 then 0 else max 0 \<lceil>log4_quotient ext 4003 1000\<rceil>)"
    using g by (simp add: budget_pixels)
  have "get_scale_from_max_pixels ext budget_scene budget_conf strip_settings = int 1 + 1"
  proof (rule scale_window(1) [OF g'])
    show "\<bar>log4_quotient ext 4003 1000
        - log 4 (real_of_int 4003 / real_of_int 1000)\<bar> \<le> 1 / 10000"
      using assms by (simp only: log4_ratio_def)
    show "real 1 + 1 / 10000 < log 4 (real_of_int 4003 / real_of_int 1000)"
      unfolding r using log4_4003_window(1) by simp
    show "log 4 (real_of_int 4003 / real_of_int 1000) \<le> real 1 + 1 - 1 / 10000"
      unfolding r using log4_4003_window(2) by simp
  qed simp_all
  then show ?thesis by simp
qed

text \<open>
  Against C7 as stated: for a 4003 by 1 image and a budget of 1000 pixels the ratio is
  4.003 and its logarithm to base 4 is just above 1, so the derived scale is 2, although
  already \<open>s = 1\<close> gives \<open>4003 >> 2 = 1000 \<le> 1000\<close>. The derived scale is not the
  smallest \<open>s\<close> with \<open>(width * height) >> (2 * s) \<le> max_pixels\<close>. (The float operations
  are taken without rounding error here; by the lemma above they may as well round.)
\<close>

theorem scale_not_least_shift:
  "get_scale_from_max_pixels exact_ext budget_scene budget_conf strip_settings = 2 \<and>
   shifted_pixels (4003 * 1) 1 \<le> max_pixels budget_conf \<and> (1 :: nat) < 2"
proof -
  have "\<forall>s. get_scale_from_max_pixels exact_ext budget_scene budget_conf strip_settings
        \<le> int s \<longleftrightarrow> 4003 \<le> max_pixels budget_conf * 4 ^ s"
    by (rule exact_scale_least [OF budget_lookup(2) budget_lookup(4) _ budget_lookup(5)])
      (simp_all add: budget_lookup(6) budget_pixels)
  then have "get_scale_from_max_pixels exact_ext budget_scene budget_conf strip_settings
      = int (Suc 1)"
    by (rule scale_eqI) (simp_all add: budget_lookup(6))
  moreover have "shifted_pixels (4003 * 1) 1 \<le> max_pixels budget_conf"
    by (simp add: shifted_pixels_eq budget_lookup(6))
  ultimately show ?thesis by simp
qed

text \<open>
  C7, amended. When the reference view has the image embedding and a pixel budget
  \<open>max_pixels > 0\<close> is configured, the derived scale is 0 if the pixel count
  \<open>width * height\<close> (a 32-bit product) is at most \<open>max_pixels\<close>; above the budget it is
  \<open>max 0 \<lceil>q\<rceil>\<close> for the float \<open>q\<close> that the division of the logarithm of
  \<open>width * height / max_pixels\<close> by the logarithm of 4 gives in float arithmetic; it is
  never negative. If \<open>q\<close> is within a tolerance of \<open>log\<^sub>4 (width * height / max_pixels)\<close> and
  this logarithm keeps that distance from the integers \<open>k\<close> and \<open>k + 1\<close> around it, the
  scale is \<open>k + 1 = \<lceil>log\<^sub>4 (width * height / max_pixels)\<rceil>\<close>; it then is the smallest
  natural number \<open>s\<close> with \<open>width * height \<le> max_pixels * 4\<^sup>s\<close>, and
  \<open>(width * height) >> (2 * s) \<le> max_pixels\<close> holds for it (without it being the smallest
  such \<open>s\<close>). For a budget of 1000 and a 2000 by 2000 image the scale is 6 whenever \<open>q\<close>
  is within 1/100 of \<open>log\<^sub>4 4000\<close>.
\<close>

theorem get_scale_characterisation:
  "(get_view_by_id scene (refViewNr st) = Some v \<and>
    get_proxy v (imageEmbedding st) = Some px \<and> 0 < max_pixels conf \<and>
    pixels = mul_int (width px) (height px) \<longrightarrow>
    (pixels \<le> max_pixels conf \<longrightarrow> get_scale_from_max_pixels ext scene conf st = 0) \<and>
    (max_pixels conf < pixels \<longrightarrow>
       get_scale_from_max_pixels ext scene conf st =
         max 0 \<lceil>log4_quotient ext pixels (max_pixels conf)\<rceil>) \<and>
    0 \<le> get_scale_from_max_pixels ext scene conf st \<and>
    (max_pixels conf < pixels \<and>
     \<bar>log4_quotient ext pixels (max_pixels conf) - log4_ratio pixels (max_pixels conf)\<bar>
       \<le> tol \<and>
     real k + tol < log4_ratio pixels (max_pixels conf) \<and>
     log4_ratio pixels (max_pixels conf) \<le> real k + 1 - tol \<longrightarrow>
       get_scale_from_max_pixels ext scene conf st = int k + 1 \<and>
       get_scale_from_max_pixels ext scene conf st
         = \<lceil>log4_ratio pixels (max_pixels conf)\<rceil> \<and>
       (\<forall>s. get_scale_from_max_pixels ext scene conf st \<le> int s \<longleftrightarrow>
            pixels \<le> max_pixels conf * 4 ^ s) \<and>
       shifted_pixels pixels (nat (get_scale_from_max_pixels ext scene conf st))
         \<le> max_pixels conf)) \<and>
   (- (2 ^ 31) \<le> w * h \<and> w * h < 2 ^ 31 \<longrightarrow> mul_int w h = w * h) \<and>
   (max_pixels budget_conf = 1000 \<and>
    get_view_by_id budget_scene (refViewNr photo_settings) = Some photo \<and>
    get_proxy photo (imageEmbedding photo_settings) = Some \<lparr>width = 2000, height = 2000\<rparr> \<and>
    (\<bar>log4_quotient ext' 4000000 1000 - log4_ratio 4000000 1000\<bar> \<le> 1 / 100 \<longrightarrow>
       get_scale_from_max_pixels ext' budget_scene budget_conf photo_settings = 6))"
proof (intro conjI impI)
  assume h: "get_view_by_id scene (refViewNr st) = Some v \<and>
    get_proxy v (imageEmbedding st) = Some px \<and> 0 < max_pixels conf \<and>
    pixels = mul_int (width px) (height px)"
  then have a: "get_view_by_id scene (refViewNr st) = Some v"
    and b: "get_proxy v (imageEmbedding st) = Some px" and m: "0 < max_pixels conf"
    and p: "mul_int (width px) (height px) = pixels"
    by simp_all
  note g = get_scale_found [OF a b, of ext conf, unfolded p]
  show "0 \<le> get_scale_from_max_pixels ext scene conf st"
    by (simp add: g)
  {
    assume "pixels \<le> max_pixels conf"
    then show "get_scale_from_max_pixels ext scene conf st = 0" by (simp add: g)
  }
  {
    assume "max_pixels conf < pixels"
    then show "get_scale_from_max_pixels ext scene conf st =
         max 0 \<lceil>log4_quotient ext pixels (max_pixels conf)\<rceil>"
      by (simp add: g)
  }
  assume w: "max_pixels conf < pixels \<and>
     \<bar>log4_quotient ext pixels (max_pixels conf) - log4_ratio pixels (max_pixels conf)\<bar>
       \<le> tol \<and>
     real k + tol < log4_ratio pixels (max_pixels conf) \<and>
     log4_ratio pixels (max_pixels conf) \<le> real k + 1 - tol"
  then have big: "max_pixels conf < pixels"
    and close: "\<bar>log4_quotient ext pixels (max_pixels conf)
        - log 4 (real_of_int pixels / real_of_int (max_pixels conf))\<bar> \<le> tol"
    and lo: "real k + tol < log 4 (real_of_int pixels / real_of_int (max_pixels conf))"
    and hi: "log 4 (real_of_int pixels / real_of_int (max_pixels conf)) \<le> real k + 1 - tol"
    by (simp_all add: log4_ratio_def)
  note sw = scale_window [OF g m big close lo hi]
  show "get_scale_from_max_pixels ext scene conf st = int k + 1"
    by (rule sw)
  show "get_scale_from_max_pixels ext scene conf st = \<lceil>log4_ratio pixels (max_pixels conf)\<rceil>"
    unfolding log4_ratio_def by (rule sw)
  show "\<forall>s. get_scale_from_max_pixels ext scene conf st \<le> int s \<longleftrightarrow>
            pixels \<le> max_pixels conf * 4 ^ s"
    by (rule sw)
  show "shifted_pixels pixels (nat (get_scale_from_max_pixels ext scene conf st))
         \<le> max_pixels conf"
    by (rule sw)
next
  assume "- (2 ^ 31) \<le> w * h \<and> w * h < 2 ^ 31"
  then show "mul_int w h = w * h" by (simp add: mul_int_exact)
next
  assume c: "\<bar>log4_quotient ext' 4000000 1000 - log4_ratio 4000000 1000\<bar> \<le> 1 / 100"
  have r: "log 4 (real_of_int 4000000 / real_of_int 1000) = log 4 (4000 :: real)"
    by simp
  note g = get_scale_found [OF budget_lookup(1) budget_lookup(3), of ext' budget_conf,
      unfolded budget_lookup(6)]
  have g': "get_scale_from_max_pixels ext' budget_scene budget_conf photo_settings =
    (if (4000000 :: int) \<le> 1000 then 0 else max 0 \<lceil>log4_quotient ext' 4000000 1000\<rceil>)"
    using g by (simp add: budget_pixels)
  have "get_scale_from_max_pixels ext' budget_scene budget_conf photo_settings = int 5 + 1"
  proof (rule scale_window(1) [OF g'])
    show "\<bar>log4_quotient ext' 4000000 1000
        - log 4 (real_of_int 4000000 / real_of_int 1000)\<bar> \<le> 1 / 100"
      using c by (simp only: log4_ratio_def)
    show "real 5 + 1 / 100 < log 4 (real_of_int 4000000 / real_of_int 1000)"
      unfolding r using log4_4000_window(1) by simp
    show "log 4 (real_of_int 4000000 / real_of_int 1000) \<le> real 5 + 1 - 1 / 100"
      unfolding r using log4_4000_window(2) by simp
  qed simp_all
  then show "get_scale_from_max_pixels ext' budget_scene budget_conf photo_settings = 6"
    by simp
qed (simp_all add: budget_lookup)

theorem get_scale_characterisation_witness:
  "(get_view_by_id budget_scene (refViewNr photo_settings) = Some photo \<and>
    get_proxy photo (imageEmbedding photo_settings) = Some \<lparr>width = 2000, height = 2000\<rparr> \<and>
    0 < max_pixels budget_conf \<and>
    (4000000 :: int) = mul_int (width \<lparr>width = 2000, height = 2000\<rparr>)
                               (height \<lparr>width = 2000, height = 2000\<rparr>)) \<and>
   (max_pixels budget_conf < 4000000 \<and>
    \<bar>log4_quotient exact_ext 4000000 (max_pixels budget_conf)
       - log4_ratio 4000000 (max_pixels budget_conf)\<bar> \<le> 1 / 100 \<and>
    real 5 + 1 / 100 < log4_ratio 4000000 (max_pixels budget_conf) \<and>
    log4_ratio 4000000 (max_pixels budget_conf) \<le> real 5 + 1 - 1 / 100) \<and>
   (- (2 ^ 31) \<le> (2000 :: int) * 2000 \<and> (2000 :: int) * 2000 < 2 ^ 31) \<and>
   mul_int 2000 2000 = 2000 * 2000 \<and>
   get_scale_from_max_pixels exact_ext budget_scene budget_conf photo_settings = int 5 + 1 \<and>
   get_scale_from_max_pixels exact_ext budget_scene budget_conf photo_settings
     = \<lceil>log4_ratio 4000000 (max_pixels budget_conf)\<rceil> \<and>
   shifted_pixels 4000000
     (nat (get_scale_from_max_pixels exact_ext budget_scene budget_conf photo_settings))
     \<le> max_pixels budget_conf \<and>
   \<bar>log4_quotient exact_ext 4000000 1000 - log4_ratio 4000000 1000\<bar> \<le> 1 / 100 \<and>
   get_scale_from_max_pixels exact_ext budget_scene budget_conf photo_settings = 6"
proof -
  let ?px = "\<lparr>width = 2000, height = 2000\<rparr>"
  have h: "get_view_by_id budget_scene (refViewNr photo_settings) = Some photo \<and>
    get_proxy photo (imageEmbedding photo_settings) = Some ?px \<and>
    0 < max_pixels budget_conf \<and> (4000000 :: int) = mul_int (width ?px) (height ?px)"
    by (simp add: budget_lookup budget_pixels)
  have r: "log4_ratio 4000000 (max_pixels budget_conf) = log 4 (4000 :: real)"
    by (simp add: log4_ratio_def budget_lookup(6))
  have q: "log4_quotient exact_ext 4000000 (max_pixels budget_conf) = log 4 (4000 :: real)"
    by (simp add: log4_quotient_exact budget_lookup(6))
  have w: "max_pixels budget_conf < 4000000 \<and>
    \<bar>log4_quotient exact_ext 4000000 (max_pixels budget_conf)
       - log4_ratio 4000000 (max_pixels budget_conf)\<bar> \<le> 1 / 100 \<and>
    real 5 + 1 / 100 < log4_ratio 4000000 (max_pixels budget_conf) \<and>
    log4_ratio 4000000 (max_pixels budget_conf) \<le> real 5 + 1 - 1 / 100"
    unfolding r q using log4_4000_window by (simp add: budget_lookup(6))
  have i: "- (2 ^ 31) \<le> (2000 :: int) * 2000 \<and> (2000 :: int) * 2000 < 2 ^ 31"
    by simp
  note t = get_scale_characterisation [of budget_scene photo_settings photo ?px budget_conf
      4000000 exact_ext "1 / 100" 5 2000 2000 exact_ext]
  note general = t [THEN conjunct1, THEN mp, OF h]
  note window = general [THEN conjunct2, THEN conjunct2, THEN conjunct2, THEN mp, OF w]
  note product = t [THEN conjunct2, THEN conjunct1, THEN mp, OF i]
  have e: "\<bar>log4_quotient exact_ext 4000000 1000 - log4_ratio 4000000 1000\<bar> \<le> 1 / 100"
    by (simp add: log4_quotient_exact log4_ratio_def)
  note six = t [THEN conjunct2, THEN conjunct2, THEN conjunct2, THEN conjunct2,
      THEN conjunct2, THEN mp, OF e]
  from window have
    "get_scale_from_max_pixels exact_ext budget_scene budget_conf photo_settings = int 5 + 1"
    "get_scale_from_max_pixels exact_ext budget_scene budget_conf photo_settings
      = \<lceil>log4_ratio 4000000 (max_pixels budget_conf)\<rceil>"
    "shifted_pixels 4000000
      (nat (get_scale_from_max_pixels exact_ext budget_scene budget_conf photo_settings))
      \<le> max_pixels budget_conf"
    by (rule conjunct1, rule conjunct2 [THEN conjunct1],
        rule conjunct2 [THEN conjunct2, THEN conjunct2])
  with h w i product e six show ?thesis
    by - (assumption | rule conjI)+
qed

subsection \<open>The skip policy of the batch loop\<close>

lemma reconstruct_outcome:
  "reconstruct ext scene settings =
     ((fst (DMRecon_start ext scene settings),
       if fst (DMRecon_start ext scene settings) = None then DONE else FAILED),
      snd (DMRecon_start ext scene settings))"
  by (simp add: reconstruct_def split: prod.splits option.splits)

lemma batch_job_skipped_iff:
  "outcome (batch_job ext conf scene vid) = SKIPPED \<longleftrightarrow>
     view_out_of_range scene vid \<or> lacks_valid_camera scene vid \<or>
     (already_reconstructed ext conf scene vid \<and> \<not> force_recon conf)"
  by (auto simp add: batch_job_def Let_def view_out_of_range_def lacks_valid_camera_def
      already_reconstructed_def get_view_by_id_def embedding_name_def reconstruct_outcome
      split: option.splits prod.splits)

lemma batch_job_invoked_iff:
  "invoked (batch_job ext conf scene vid) = None \<longleftrightarrow>
     outcome (batch_job ext conf scene vid) = SKIPPED"
  by (auto simp add: batch_job_def Let_def reconstruct_outcome
      split: option.splits prod.splits)

text \<open>A skipped job has consulted neither external and leaves the scene as it was.\<close>

lemma batch_job_skipped:
  "outcome (batch_job ext conf scene vid) = SKIPPED \<Longrightarrow>
   batch_job ext conf scene vid =
     \<lparr>view_id = vid, outcome = SKIPPED, invoked = None, cerr = [], scene_after = scene\<rparr>"
  by (auto simp add: batch_job_def Let_def reconstruct_outcome
      split: option.splits prod.splits if_splits)

text \<open>
  A job that is not skipped is what the external reconstruction makes of it: the
  reconstruction is started on the scene of the job with the settings of the job, its
  exception (if any) decides the outcome, and the scene it returns is passed on, to
  \<^verbatim>\<open>save_mve_file\<close> if there was no exception.
\<close>

lemma batch_job_run:
  assumes "outcome (batch_job ext conf scene vid) \<noteq> SKIPPED"
    and "started = DMRecon_start ext scene (job_settings ext conf scene (size_t_of_int vid))"
  shows "invoked (batch_job ext conf scene vid) =
           Some (job_settings ext conf scene (size_t_of_int vid))"
    and "outcome (batch_job ext conf scene vid) =
           (if fst started = None then DONE else FAILED)"
    and "fst started = Some err \<longrightarrow>
           cerr (batch_job ext conf scene vid) = [what err] \<and>
           scene_after (batch_job ext conf scene vid) = snd started"
    and "fst started = None \<longrightarrow>
           scene_after (batch_job ext conf scene vid) =
             snd (save_mve_file ext (snd started) (size_t_of_int vid))"
  using assms
  by (auto simp add: batch_job_def Let_def reconstruct_outcome
      split: option.splits prod.splits if_splits)

lemma batch_job_failed:
  "invoked (batch_job ext conf scene vid) \<noteq> None \<Longrightarrow>
   fst (DMRecon_start ext scene (job_settings ext conf scene (size_t_of_int vid))) = Some err \<Longrightarrow>
   outcome (batch_job ext conf scene vid) = FAILED \<and>
   cerr (batch_job ext conf scene vid) = [what err]"
  by (auto simp add: batch_job_def Let_def reconstruct_outcome
      split: option.splits prod.splits if_splits)

lemma batch_job_view_id: "view_id (batch_job ext conf scene vid) = vid"
  by (auto simp add: batch_job_def Let_def split: option.splits prod.splits)

lemma batch_loop_view_ids: "map view_id (batch_loop ext conf scene ids) = ids"
  by (induction ids arbitrary: scene) (simp_all add: Let_def batch_job_view_id)

lemma batch_loop_nth:
  "k < length ids \<Longrightarrow>
   batch_loop ext conf scene ids ! k =
     batch_job ext conf (scene_before ext conf scene ids k) (ids ! k)"
proof (induction ids arbitrary: scene k)
  case Nil
  then show ?case by simp
next
  case (Cons vid ids)
  then show ?case by (cases k) (simp_all add: Let_def)
qed

lemma string_get_0: "string_get 0 = ''0''"
  by code_simp

lemmas batch_example_defs =
  batch_scene_def batch_conf_def failing_ext_def exact_ext_def done_view_def blind_view_def
  photo_def photo_settings_def

lemma batch_example_conditions:
  "\<not> view_out_of_range batch_scene 0" "\<not> lacks_valid_camera batch_scene 0"
  "already_reconstructed failing_ext batch_conf batch_scene 0"
  "already_reconstructed failing_ext forced_conf batch_scene 0"
  "\<not> force_recon batch_conf" "force_recon forced_conf"
  "lacks_valid_camera batch_scene 1" "view_out_of_range batch_scene 7"
  "view_out_of_range batch_scene (- 1)"
  "\<not> view_out_of_range batch_scene 3" "\<not> lacks_valid_camera batch_scene 3"
  "\<not> already_reconstructed failing_ext batch_conf batch_scene 3"
  by (simp_all add: batch_example_defs forced_conf_def view_out_of_range_def
      lacks_valid_camera_def already_reconstructed_def get_view_by_id_def size_t_of_int_def
      job_settings_def string_get_0)

lemma batch_example_started:
  "DMRecon_start failing_ext batch_scene
     (job_settings failing_ext forced_conf batch_scene (size_t_of_int 0)) = (None, batch_scene)"
  "DMRecon_start failing_ext batch_scene
     (job_settings failing_ext batch_conf batch_scene (size_t_of_int 3)) = (None, batch_scene)"
  "save_mve_file failing_ext batch_scene (size_t_of_int 0) = (None, batch_scene)"
  by (simp_all add: batch_example_defs forced_conf_def job_settings_def size_t_of_int_def)

text \<open>
  C8. In the batch loop, on whatever scene a job is dispatched, the job is skipped exactly
  when the view id is outside the catalog, the view has no valid camera pose (the handle
  is null or its camera is invalid), or the embedding \<open>"depth-L" + decimal(scale)\<close>
  exists while the force flag is unset. A skipped job calls neither the reconstruction nor
  \<^verbatim>\<open>save_mve_file\<close>: its result is fixed and the scene stays as it was. Every other job
  calls \<^verbatim>\<open>reconstruct\<close>, which starts the external reconstruction on the scene and the
  settings of the job: the job ends as \<open>DONE\<close> or \<open>FAILED\<close> as the reconstruction
  returns or throws, and the scene it leaves is the one the reconstruction returned
  (saved, if it did not throw). With the force flag set an existing embedding does not
  keep the job from running. Every entry of the job list is treated by this rule, on the
  scene its predecessors left.
\<close>

theorem batch_skip_policy:
  "(outcome (batch_job ext conf scene vid) = SKIPPED \<longleftrightarrow>
      view_out_of_range scene vid \<or> lacks_valid_camera scene vid \<or>
      (already_reconstructed ext conf scene vid \<and> \<not> force_recon conf)) \<and>
   (invoked (batch_job ext conf scene vid) = None \<longleftrightarrow>
      outcome (batch_job ext conf scene vid) = SKIPPED) \<and>
   (outcome (batch_job ext conf scene vid) = SKIPPED \<longrightarrow>
      batch_job ext conf scene vid =
        \<lparr>view_id = vid, outcome = SKIPPED, invoked = None, cerr = [],
         scene_after = scene\<rparr>) \<and>
   (outcome (batch_job ext conf scene vid) \<noteq> SKIPPED \<and>
    started = DMRecon_start ext scene (job_settings ext conf scene (size_t_of_int vid)) \<longrightarrow>
      invoked (batch_job ext conf scene vid) =
        Some (job_settings ext conf scene (size_t_of_int vid)) \<and>
      outcome (batch_job ext conf scene vid) =
        (if fst started = None then DONE else FAILED) \<and>
      (fst started = Some err \<longrightarrow>
         cerr (batch_job ext conf scene vid) = [what err] \<and>
         scene_after (batch_job ext conf scene vid) = snd started) \<and>
      (fst started = None \<longrightarrow>
         scene_after (batch_job ext conf scene vid) =
           snd (save_mve_file ext (snd started) (size_t_of_int vid)))) \<and>
   (force_recon conf \<longrightarrow>
      (invoked (batch_job ext conf scene vid) = None \<longleftrightarrow>
         view_out_of_range scene vid \<or> lacks_valid_camera scene vid)) \<and>
   (k < length ids \<longrightarrow>
      batch_loop ext conf scene ids ! k =
        batch_job ext conf (scene_before ext conf scene ids k) (ids ! k))"
proof (intro conjI impI)
  show "outcome (batch_job ext conf scene vid) = SKIPPED \<longleftrightarrow>
      view_out_of_range scene vid \<or> lacks_valid_camera scene vid \<or>
      (already_reconstructed ext conf scene vid \<and> \<not> force_recon conf)"
    by (rule batch_job_skipped_iff)
  show "invoked (batch_job ext conf scene vid) = None \<longleftrightarrow>
      outcome (batch_job ext conf scene vid) = SKIPPED"
    by (rule batch_job_invoked_iff)
  {
    assume "outcome (batch_job ext conf scene vid) = SKIPPED"
    then show "batch_job ext conf scene vid =
        \<lparr>view_id = vid, outcome = SKIPPED, invoked = None, cerr = [],
         scene_after = scene\<rparr>"
      by (rule batch_job_skipped)
  }
  {
    assume h: "outcome (batch_job ext conf scene vid) \<noteq> SKIPPED \<and>
      started = DMRecon_start ext scene (job_settings ext conf scene (size_t_of_int vid))"
    then have h1: "outcome (batch_job ext conf scene vid) \<noteq> SKIPPED"
      and h2: "started =
        DMRecon_start ext scene (job_settings ext conf scene (size_t_of_int vid))"
      by simp_all
    note run = batch_job_run [OF h1 h2]
    show "invoked (batch_job ext conf scene vid) =
        Some (job_settings ext conf scene (size_t_of_int vid))"
      by (rule run)
    show "outcome (batch_job ext conf scene vid) =
        (if fst started = None then DONE else FAILED)"
      by (rule run)
    {
      assume e: "fst started = Some err"
      from run(3) [of err] e
      show "cerr (batch_job ext conf scene vid) = [what err]"
        "scene_after (batch_job ext conf scene vid) = snd started"
        by simp_all
    }
    {
      assume "fst started = None"
      with run(4) show "scene_after (batch_job ext conf scene vid) =
           snd (save_mve_file ext (snd started) (size_t_of_int vid))"
        by simp
    }
  }
  {
    assume "force_recon conf"
    then show "invoked (batch_job ext conf scene vid) = None \<longleftrightarrow>
         view_out_of_range scene vid \<or> lacks_valid_camera scene vid"
      using batch_job_skipped_iff [of ext conf scene vid]
        batch_job_invoked_iff [of ext conf scene vid]
      by simp
  }
  {
    assume "k < length ids"
    then show "batch_loop ext conf scene ids ! k =
        batch_job ext conf (scene_before ext conf scene ids k) (ids ! k)"
      by (rule batch_loop_nth)
  }
qed

theorem batch_skip_policy_witness:
  "already_reconstructed failing_ext batch_conf batch_scene 0 \<and> \<not> force_recon batch_conf \<and>
   outcome (batch_job failing_ext batch_conf batch_scene 0) = SKIPPED \<and>
   invoked (batch_job failing_ext batch_conf batch_scene 0) = None \<and>
   scene_after (batch_job failing_ext batch_conf batch_scene 0) = batch_scene \<and>
   force_recon forced_conf \<and> already_reconstructed failing_ext forced_conf batch_scene 0 \<and>
   invoked (batch_job failing_ext forced_conf batch_scene 0) \<noteq> None \<and>
   outcome (batch_job failing_ext forced_conf batch_scene 0) = DONE \<and>
   outcome (batch_job failing_ext batch_conf batch_scene 1) = SKIPPED \<and>
   outcome (batch_job failing_ext batch_conf batch_scene 7) = SKIPPED \<and>
   outcome (batch_job failing_ext batch_conf batch_scene 3) = DONE \<and>
   invoked (batch_job failing_ext batch_conf batch_scene 3) =
     Some (job_settings failing_ext batch_conf batch_scene (size_t_of_int 3)) \<and>
   (4 :: nat) < length [0, 1, 2, 3, 7 :: int] \<and>
   batch_loop failing_ext batch_conf batch_scene [0, 1, 2, 3, 7] ! 4 =
     batch_job failing_ext batch_conf
       (scene_before failing_ext batch_conf batch_scene [0, 1, 2, 3, 7] 4) 7"
proof -
  note c = batch_example_conditions
  note st = batch_example_started
  have four: "(4 :: nat) < length [0, 1, 2, 3, 7 :: int]" "[0, 1, 2, 3, 7 :: int] ! 4 = 7"
    by simp_all
  note p = batch_skip_policy [where ext = failing_ext and scene = batch_scene and k = 4
      and ids = "[0, 1, 2, 3, 7]"]
  note skipped = p [where conf = batch_conf and vid = 0]
  note forced = p [where conf = forced_conf and vid = 0 and started = "(None, batch_scene)"]
  note run = p [where conf = batch_conf and vid = 3 and started = "(None, batch_scene)"]
  have s0: "outcome (batch_job failing_ext batch_conf batch_scene 0) = SKIPPED"
    using skipped [THEN conjunct1] c(3,5) by simp
  have i0: "invoked (batch_job failing_ext batch_conf batch_scene 0) = None"
    using skipped [THEN conjunct2, THEN conjunct1] s0 by simp
  have a0: "scene_after (batch_job failing_ext batch_conf batch_scene 0) = batch_scene"
    using skipped [THEN conjunct2, THEN conjunct2, THEN conjunct1, THEN mp, OF s0] by simp
  have f0: "outcome (batch_job failing_ext forced_conf batch_scene 0) \<noteq> SKIPPED"
    using forced [THEN conjunct1] c(1,2,6) by simp
  note frun = forced [THEN conjunct2, THEN conjunct2, THEN conjunct2, THEN conjunct1,
      THEN mp, OF conjI [OF f0 st(1) [symmetric]]]
  have f1: "invoked (batch_job failing_ext forced_conf batch_scene 0) \<noteq> None"
    using frun [THEN conjunct1] by simp
  have f2: "outcome (batch_job failing_ext forced_conf batch_scene 0) = DONE"
    using frun [THEN conjunct2, THEN conjunct1] by simp
  have s1: "outcome (batch_job failing_ext batch_conf batch_scene 1) = SKIPPED"
    using p [where conf = batch_conf and vid = 1, THEN conjunct1] c(7) by simp
  have s7: "outcome (batch_job failing_ext batch_conf batch_scene 7) = SKIPPED"
    using p [where conf = batch_conf and vid = 7, THEN conjunct1] c(8) by simp
  have r0: "outcome (batch_job failing_ext batch_conf batch_scene 3) \<noteq> SKIPPED"
    using run [THEN conjunct1] c(10,11,12) by simp
  note rrun = run [THEN conjunct2, THEN conjunct2, THEN conjunct2, THEN conjunct1,
      THEN mp, OF conjI [OF r0 st(2) [symmetric]]]
  have r1: "invoked (batch_job failing_ext batch_conf batch_scene 3) =
     Some (job_settings failing_ext batch_conf batch_scene (size_t_of_int 3))"
    by (rule rrun [THEN conjunct1])
  have r2: "outcome (batch_job failing_ext batch_conf batch_scene 3) = DONE"
    using rrun [THEN conjunct2, THEN conjunct1] by simp
  have l: "batch_loop failing_ext batch_conf batch_scene [0, 1, 2, 3, 7] ! 4 =
     batch_job failing_ext batch_conf
       (scene_before failing_ext batch_conf batch_scene [0, 1, 2, 3, 7] 4) 7"
    using skipped [THEN conjunct2, THEN conjunct2, THEN conjunct2, THEN conjunct2,
        THEN conjunct2, THEN mp, OF four(1)]
    by (simp only: four(2))
  from c(3,5) s0 i0 a0 c(6) c(4) f1 f2 s1 s7 r2 r1 four(1) l show ?thesis
    by - (assumption | rule conjI)+
qed

subsection \<open>Failure of the external reconstruction\<close>

lemma master_example:
  "0 \<le> master_id master_conf"
  "fst (DMRecon_start failing_ext batch_scene
     (master_settings failing_ext master_conf batch_scene)) =
     Some (Exception ''no neighbours'')"
  by (simp_all add: master_conf_def batch_example_defs master_settings_def)

lemma batch_example:
  "master_id batch_conf < 0" "job_list batch_conf batch_scene = [0, 1, 2, 3, 7]"
  "fst (DMRecon_start failing_ext batch_scene
     (job_settings failing_ext batch_conf batch_scene (size_t_of_int 2))) =
     Some (Exception ''no neighbours'')"
  "invoked (batch_job failing_ext batch_conf batch_scene 2) \<noteq> None"
  by (simp_all add: batch_example_defs job_list_def job_settings_def size_t_of_int_def
      batch_job_def Let_def embedding_name_def string_get_0 reconstruct_def)

text \<open>
  C9. In batch mode every exception of the reconstruction is caught: the job that
  raised it ends as \<open>FAILED\<close> with the text of the exception on \<^verbatim>\<open>std::cerr\<close>, every entry
  of the job list still gets its result (each job runs on the scene its predecessors left,
  failed or not), the views are saved and the exit status is 0. In single-master mode the
  same exception ends the run with exit status 1 before the views are saved.
\<close>

theorem failure_isolation:
  "(master_id conf < 0 \<longrightarrow>
      exit_status (main_reconstruct ext conf scene) = 0 \<and>
      views_saved (main_reconstruct ext conf scene) \<and>
      map view_id (jobs (main_reconstruct ext conf scene)) = job_list conf scene \<and>
      (\<forall>k < length (job_list conf scene).
         jobs (main_reconstruct ext conf scene) ! k =
           batch_job ext conf
             (scene_before ext conf scene (job_list conf scene) k) (job_list conf scene ! k))) \<and>
   (invoked (batch_job ext conf scene vid) \<noteq> None \<and>
    fst (DMRecon_start ext scene (job_settings ext conf scene (size_t_of_int vid)))
      = Some err \<longrightarrow>
      outcome (batch_job ext conf scene vid) = FAILED \<and>
      cerr (batch_job ext conf scene vid) = [what err]) \<and>
   (0 \<le> master_id conf \<and>
    fst (DMRecon_start ext scene (master_settings ext conf scene)) = Some err \<longrightarrow>
      exit_status (main_reconstruct ext conf scene) = 1 \<and>
      \<not> views_saved (main_reconstruct ext conf scene))"
proof (intro conjI impI allI)
  assume "master_id conf < 0"
  then have m: "main_reconstruct ext conf scene =
      \<lparr>exit_status = 0, jobs = batch_loop ext conf scene (job_list conf scene),
       views_saved = True\<rparr>"
    by (simp add: main_reconstruct_def)
  show "exit_status (main_reconstruct ext conf scene) = 0"
    "views_saved (main_reconstruct ext conf scene)"
    "map view_id (jobs (main_reconstruct ext conf scene)) = job_list conf scene"
    by (simp_all add: m batch_loop_view_ids)
  fix k
  assume "k < length (job_list conf scene)"
  then show "jobs (main_reconstruct ext conf scene) ! k =
           batch_job ext conf
             (scene_before ext conf scene (job_list conf scene) k) (job_list conf scene ! k)"
    by (simp add: m batch_loop_nth)
next
  assume h: "invoked (batch_job ext conf scene vid) \<noteq> None \<and>
    fst (DMRecon_start ext scene (job_settings ext conf scene (size_t_of_int vid)))
      = Some err"
  then show "outcome (batch_job ext conf scene vid) = FAILED"
    "cerr (batch_job ext conf scene vid) = [what err]"
    using batch_job_failed [of ext conf scene vid err] by simp_all
next
  assume h: "0 \<le> master_id conf \<and>
    fst (DMRecon_start ext scene (master_settings ext conf scene)) = Some err"
  then show "exit_status (main_reconstruct ext conf scene) = 1"
    "\<not> views_saved (main_reconstruct ext conf scene)"
    by (simp_all add: main_reconstruct_def Let_def reconstruct_outcome)
qed

theorem failure_isolation_witness:
  "master_id batch_conf < 0 \<and>
   exit_status (main_reconstruct failing_ext batch_conf batch_scene) = 0 \<and>
   map view_id (jobs (main_reconstruct failing_ext batch_conf batch_scene)) = [0, 1, 2, 3, 7] \<and>
   invoked (batch_job failing_ext batch_conf batch_scene 2) \<noteq> None \<and>
   fst (DMRecon_start failing_ext batch_scene
     (job_settings failing_ext batch_conf batch_scene (size_t_of_int 2)))
     = Some (Exception ''no neighbours'') \<and>
   outcome (batch_job failing_ext batch_conf batch_scene 2) = FAILED \<and>
   cerr (batch_job failing_ext batch_conf batch_scene 2) = [''no neighbours''] \<and>
   0 \<le> master_id master_conf \<and>
   fst (DMRecon_start failing_ext batch_scene
     (master_settings failing_ext master_conf batch_scene)) =
     Some (Exception ''no neighbours'') \<and>
   exit_status (main_reconstruct failing_ext master_conf batch_scene) = 1"
  using master_example batch_example
    failure_isolation [where ext = failing_ext and conf = batch_conf and scene = batch_scene
      and vid = 2 and err = "Exception ''no neighbours''"]
    failure_isolation [where ext = failing_ext and conf = master_conf and scene = batch_scene
      and vid = 2 and err = "Exception ''no neighbours''"]
  by simp

end
